theory Spec2Isabelle
  imports Main "HOL-Library.AList"
begin

section \<open>Values of the provisioning workflow (provision.go)\<close>

text \<open>
  A Go \<^verbatim>\<open>error\<close> value is identified with its message (\<^verbatim>\<open>err.Error()\<close>).
  A call either returns a value, returns a non-nil error, or panics (a nil pointer
  dereference, or \<^verbatim>\<open>_escFSMustString\<close> on a missing resource); a panic is not an error
  value and is never seen by \<^verbatim>\<open>if err != nil\<close>.
\<close>

type_synonym error = string

datatype 'a result = Ok 'a | Err error | Panic string

text \<open>\<^verbatim>\<open>strings.Contains(s, substr)\<close>: \<open>substr\<close> occurs in \<open>s\<close> as a contiguous run.\<close>

fun Contains :: "string \<Rightarrow> string \<Rightarrow> bool" where
  "Contains [] substr = (substr = [])"
| "Contains (c # s) substr = (take (length substr) (c # s) = substr \<or> Contains s substr)"

subsection \<open>The CloudFormation template (go-cloudformation), as far as provision.go uses it\<close>

datatype StringExpr = StringLit string | GetAtt string string | Ref string

datatype MetaValue = MetaOutputs "(string \<times> string) list" | MetaExpr StringExpr

record Output =
  OutputDescription :: string
  OutputValue :: StringExpr

record Resource =
  ResourceType :: string
  DependsOn :: "string list"
  Metadata :: "(string \<times> MetaValue) list"

text \<open>
  \<^verbatim>\<open>Template.Resources\<close> and \<^verbatim>\<open>Template.Outputs\<close> are Go maps. They are kept as
  association lists; a \<^verbatim>\<open>range\<close> over the map visits the entries in the order of the
  list (Go leaves the order unspecified, so nothing below may depend on it).
\<close>

record Template =
  Description :: string
  Resources :: "(string \<times> Resource) list"
  Outputs :: "(string \<times> Output) list"

definition NewTemplate :: Template where
  "NewTemplate = \<lparr>Description = [], Resources = [], Outputs = []\<rparr>"

definition AddResource :: "string \<Rightarrow> Resource \<Rightarrow> Template \<Rightarrow> Template" where
  "AddResource name res t = t\<lparr>Resources := AList.update name res (Resources t)\<rparr>"

subsection \<open>Descriptors handed to Provision\<close>

datatype IAMRoleDefinition = IAMRoleDefinition (Privileges: "string list")

record LambdaAWSInfo =
  lambdaFnName :: string
  RoleName :: string
  RoleDefinition :: "IAMRoleDefinition option"
  EventSourceMappings :: "string list"

datatype API = API string

record S3Site =
  resources :: string

text \<open>\<^verbatim>\<open>type s3SiteContext struct\<close>; the workflow context holds a pointer to it.\<close>

record s3SiteContext =
  s3Site :: "S3Site option"
  s3SiteLambdaZipKey :: string

subsection \<open>Effects\<close>

text \<open>
  Everything the program does to the outside is appended to a history of events: calls to
  the AWS services, to the file system and the Go tool chain, writes to the template
  sink, and log lines (level and message; the structured fields are left out).
\<close>

datatype level = DebugLevel | InfoLevel | WarnLevel | ErrorLevel

datatype event =
    Log level string
  | IAMGetRole string
  | S3GetBucketLifecycleConfiguration string
  | S3Upload string string
  | S3DeleteObject string string
  | CFDescribeStacks string
  | CFUpdateStack string string "string list"
  | CFCreateStack string string "string list"
  | CFDescribeStackEvents string string
  | Sleep nat
  | ExecGoBuild string
  | OsGetwd
  | OsStat string
  | OsOpen string
  | OsRemove string
  | FileClose string
  | TempFile string string
  | FilepathAbs string
  | ZipCreate string string
  | ZipWrite string string
  | ZipCopyFile string string
  | ZipClose string
  | AddToZip string string
  | WriteString string string

type_synonym world = "event list"

text \<open>A rule of a bucket lifecycle configuration: only its \<^verbatim>\<open>Status\<close> is read.\<close>

type_synonym LifecycleRule = string

record Stack =
  StackId :: string
  StackName :: string
  StackStatus :: string
  StackOutputs :: "(string \<times> string \<times> string) list"
  CreationTime :: string

record StackEvent =
  ResourceStatus :: string
  EventResourceType :: string
  LogicalResourceId :: string
  ResourceStatusReason :: string

text \<open>
  The collaborators of provision.go that are not part of it: the AWS SDK, the operating
  system, the Go tool chain, the embedded resources and the export functions of the
  descriptors. Each is a parameter. A call that reaches outside the process receives the
  history so far, so that its answer may change from one call to the next.
\<close>

record env =
  iamGetRole :: "world \<Rightarrow> string \<Rightarrow> error + string"
  s3GetBucketLifecycle :: "world \<Rightarrow> string \<Rightarrow> error + LifecycleRule list"
  s3UploaderUpload :: "world \<Rightarrow> string \<Rightarrow> string \<Rightarrow> error + string"
  s3DeleteObject :: "world \<Rightarrow> string \<Rightarrow> string \<Rightarrow> error option"
  cfDescribeStacks :: "world \<Rightarrow> string \<Rightarrow> error + Stack list"
  cfUpdateStack :: "world \<Rightarrow> string \<Rightarrow> string \<Rightarrow> string list \<Rightarrow> error + string"
  cfCreateStack :: "world \<Rightarrow> string \<Rightarrow> string \<Rightarrow> string list \<Rightarrow> error + string"
  cfDescribeStackEvents :: "world \<Rightarrow> string \<Rightarrow> string \<Rightarrow> error + (StackEvent list \<times> string option)"
  randInt31 :: "world \<Rightarrow> nat"
  execGoBuild :: "world \<Rightarrow> string \<Rightarrow> string list \<times> error option"
  osGetwd :: "world \<Rightarrow> error + string"
  osStat :: "world \<Rightarrow> string \<Rightarrow> error + nat"
  osOpen :: "world \<Rightarrow> string \<Rightarrow> error option"
  osRemove :: "world \<Rightarrow> string \<Rightarrow> error option"
  ioutilTempFile :: "world \<Rightarrow> string \<Rightarrow> string \<Rightarrow> error + string"
  filepathAbs :: "world \<Rightarrow> string \<Rightarrow> error + string"
  filepathBase :: "string \<Rightarrow> string"
  zipCreate :: "world \<Rightarrow> string \<Rightarrow> string \<Rightarrow> error option"
  zipNewReader :: "string \<Rightarrow> error + string list"
  zipFileOpen :: "string \<Rightarrow> string \<Rightarrow> error + string"
  addToZipFiles :: "world \<Rightarrow> string \<Rightarrow> string \<Rightarrow> string \<Rightarrow> error option"
  escFS :: "string \<Rightarrow> string option"
  sanitizedName :: "string \<Rightarrow> string"
  jsHandlerName :: "LambdaAWSInfo \<Rightarrow> string"
  logicalName :: "IAMRoleDefinition \<Rightarrow> string"
  toResource :: "IAMRoleDefinition \<Rightarrow> string list \<Rightarrow> Resource"
  lambdaExport :: "LambdaAWSInfo \<Rightarrow> string \<Rightarrow> string \<Rightarrow> string \<Rightarrow>
      (string \<times> StringExpr) list \<Rightarrow> Template \<Rightarrow> error + Template"
  apiExport :: "API \<Rightarrow> string \<Rightarrow> string \<Rightarrow> (string \<times> StringExpr) list \<Rightarrow> Template \<Rightarrow> error + Template"
  safeMergeTemplates :: "Template \<Rightarrow> Template \<Rightarrow> error + Template"
  siteExport :: "S3Site \<Rightarrow> string \<Rightarrow> string \<Rightarrow> string \<Rightarrow> (string \<times> Output) list \<Rightarrow>
      (string \<times> StringExpr) list \<Rightarrow> Template \<Rightarrow> Template"
  outputsForResource :: "Template \<Rightarrow> string \<Rightarrow> (string \<times> string) list"
  safeMetadataInsert :: "Resource \<Rightarrow> string \<Rightarrow> MetaValue \<Rightarrow> Resource"
  jsonMarshal :: "Template \<Rightarrow> error + string"
  jsonMarshalIndent :: "string \<Rightarrow> error + string"
  sha1Hex :: "string \<Rightarrow> string"
  SpartaVersion :: string
  TagStackRegion :: string
  TagStackID :: string
  TagStackName :: string
  primaryUploadFirst :: "world \<Rightarrow> bool"

subsection \<open>The workflow context\<close>

text \<open>
  \<^verbatim>\<open>type rollbackFunction func(logger *logrus.Logger) error\<close>. The one place that builds
  such a closure is \<^verbatim>\<open>createS3RollbackFunc\<close>; a rollback function is represented by
  the variables that closure captures: bucket, key and the no-op flag.
\<close>

datatype rollbackFunction = S3RollbackFunc string string bool

text \<open>
  \<^verbatim>\<open>type workflowContext struct\<close>. The session and logger handles carry no state of
  this model and are left out; \<^verbatim>\<open>templateWriter\<close> is nil or a sink, named by a string.
\<close>

record workflowContext =
  noop :: bool
  serviceName :: string
  serviceDescription :: string
  lambdaAWSInfos :: "LambdaAWSInfo list"
  api :: "API option"
  s3SiteContext :: "s3SiteContext option"
  cfTemplate :: Template
  lambdaIAMRoleNameMap :: "(string \<times> StringExpr) list"
  s3Bucket :: string
  s3LambdaZipKey :: string
  templateWriter :: "string option"
  rollbackFunctions :: "rollbackFunction list"

text \<open>
  \<^verbatim>\<open>type workflowStep func(ctx *workflowContext) (workflowStep, error)\<close>. The steps of
  the source are \<^verbatim>\<open>verifyIAMRoles\<close> and the closures returned by
  \<^verbatim>\<open>createPackageStep()\<close>, \<^verbatim>\<open>createUploadStep(packagePath)\<close> and
  \<^verbatim>\<open>ensureCloudFormationStack()\<close>; a step value is one of them, with the variable it
  captures.
\<close>

datatype workflowStep =
    VerifyIAMRoles
  | PackageStep
  | UploadStep string
  | EnsureCloudFormationStack

definition emit :: "event \<Rightarrow> world \<Rightarrow> world" where
  "emit e w = w @ [e]"

text \<open>\<^verbatim>\<open>func (ctx *workflowContext) registerRollback(userFunction rollbackFunction)\<close>\<close>

definition registerRollback :: "rollbackFunction \<Rightarrow> workflowContext \<Rightarrow> workflowContext" where
  "registerRollback userFunction ctx =
     ctx\<lparr>rollbackFunctions :=
        (if length (rollbackFunctions ctx) \<le> 0 then [] else rollbackFunctions ctx) @ [userFunction]\<rparr>"

section \<open>stackCapabilities\<close>

text \<open>
  The inner loop \<^verbatim>\<open>found = (found || (*eachElement == "CAPABILITY_IAM"))\<close> over the
  capabilities collected so far, then the append when nothing was found.
\<close>

definition capabilityFound :: "string list \<Rightarrow> bool" where
  "capabilityFound capabilities =
     foldl (\<lambda>found eachElement. found \<or> eachElement = ''CAPABILITY_IAM'') False capabilities"

definition capabilityStep :: "string list \<Rightarrow> string \<times> Resource \<Rightarrow> string list" where
  "capabilityStep capabilities eachResource =
     (if ResourceType (snd eachResource) = ''AWS::IAM::Role'' then
        (if \<not> capabilityFound capabilities then capabilities @ [''CAPABILITY_IAM'']
         else capabilities)
      else capabilities)"

definition stackCapabilities :: "Template \<Rightarrow> string list" where
  "stackCapabilities template = foldl capabilityStep [] (Resources template)"

section \<open>Rollback registry\<close>

definition createS3RollbackFunc :: "string \<Rightarrow> string \<Rightarrow> bool \<Rightarrow> rollbackFunction" where
  "createS3RollbackFunc bucket s3Key noopFlag = S3RollbackFunc bucket s3Key noopFlag"

text \<open>Calling the closure that \<^verbatim>\<open>createS3RollbackFunc\<close> returned.\<close>

fun callRollbackFunction :: "env \<Rightarrow> rollbackFunction \<Rightarrow> world \<Rightarrow> error option \<times> world" where
  "callRollbackFunction env (S3RollbackFunc bucket s3Key noopFlag) w =
     (if \<not> noopFlag then
        (let w1 = emit (Log InfoLevel (''Attempting to cleanup S3 item: '' @ s3Key)) w;
             err = s3DeleteObject env w1 bucket s3Key;
             w2 = emit (S3DeleteObject bucket s3Key) w1
         in case err of
              Some e \<Rightarrow>
                (Some e, emit (Log WarnLevel ''Failed to delete S3 item during rollback cleanup'') w2)
            | None \<Rightarrow> (None, emit (Log DebugLevel ''Item deleted during rollback cleanup'') w2))
      else (None, emit (Log InfoLevel ''Bypassing rollback cleanup '') w))"

text \<open>
  \<^verbatim>\<open>func (ctx *workflowContext) rollback()\<close> starts one goroutine per registered function
  and waits for all of them. The goroutines are run here one after the other, in the
  order of registration: one of the interleavings the source allows.
\<close>

fun runCleanups :: "env \<Rightarrow> rollbackFunction list \<Rightarrow> world \<Rightarrow> world" where
  "runCleanups env [] w = w"
| "runCleanups env (cleanupFunc # rest) w =
     (case callRollbackFunction env cleanupFunc w of
        (Some err, w1) \<Rightarrow> runCleanups env rest (emit (Log WarnLevel ''Failed to cleanup resource'') w1)
      | (None, w1) \<Rightarrow> runCleanups env rest w1)"

definition rollback :: "env \<Rightarrow> workflowContext \<Rightarrow> world \<Rightarrow> world" where
  "rollback env ctx w =
     runCleanups env (rollbackFunctions ctx) (emit (Log InfoLevel ''Invoking rollback functions'') w)"

section \<open>Private helpers\<close>

definition temporaryFile :: "env \<Rightarrow> string \<Rightarrow> world \<Rightarrow> (error + string) \<times> world" where
  "temporaryFile env name w =
     (case osGetwd env w of
        Inl err \<Rightarrow> (Inl err, emit OsGetwd w)
      | Inr workingDir \<Rightarrow>
          (let w1 = emit OsGetwd w in
           case ioutilTempFile env w1 workingDir name of
             Inl err \<Rightarrow> (Inl ''Failed to create temporary file'', emit (TempFile workingDir name) w1)
           | Inr tmpFile \<Rightarrow> (Inr tmpFile, emit (TempFile workingDir name) w1)))"

text \<open>
  \<^verbatim>\<open>addToZip\<close>: the absolute path, the \<^verbatim>\<open>os.Stat\<close>, then the walk over the directory
  or the single file (one call of \<open>addToZipFiles\<close>, which also stands for the source type
  that is neither), and the close of the writer on every path past the \<^verbatim>\<open>Stat\<close>.
\<close>

definition addToZip :: "env \<Rightarrow> string \<Rightarrow> string \<Rightarrow> string \<Rightarrow> world \<Rightarrow> error option \<times> world" where
  "addToZip env zipWriter source rootSource w =
     (case filepathAbs env w source of
        Inl err \<Rightarrow> (Some err, emit (FilepathAbs source) w)
      | Inr fullPathSource \<Rightarrow>
          (let w1 = emit (FilepathAbs source) w in
           case osStat env w1 fullPathSource of
             Inl err \<Rightarrow> (Some err, emit (OsStat fullPathSource) w1)
           | Inr _ \<Rightarrow>
               (let w2 = emit (OsStat fullPathSource) w1;
                    err = addToZipFiles env w2 zipWriter fullPathSource rootSource;
                    w3 = emit (AddToZip zipWriter fullPathSource) w2
                in (err, emit (ZipClose zipWriter) w3))))"

text \<open>\<^verbatim>\<open>s3.ExpirationStatusEnabled\<close> of the AWS SDK.\<close>

definition ExpirationStatusEnabled :: string where
  "ExpirationStatusEnabled = ''Enabled''"

definition ensureExpirationPolicy :: "env \<Rightarrow> string \<Rightarrow> bool \<Rightarrow> world \<Rightarrow> error option \<times> world" where
  "ensureExpirationPolicy env S3Bucket noopFlag w =
     (if noopFlag then
        (None, emit (Log InfoLevel
           ''Bypassing bucket expiration policy check due to -n/-noop command line argument'') w)
      else
        (let resp = s3GetBucketLifecycle env w S3Bucket;
             w1 = emit (S3GetBucketLifecycleConfiguration S3Bucket) w
         in case resp of
              Inl err \<Rightarrow>
                (let showWarning = Contains err ''NoSuchLifecycleConfiguration'' in
                 if \<not> showWarning then (Some (''Failed to fetch S3 Bucket Policy: '' @ err), w1)
                 else (None, emit (Log WarnLevel
                         ''Bucket should have ObjectExpiration lifecycle enabled.'') w1))
            | Inr rules \<Rightarrow>
                (let showWarning =
                       foldl (\<lambda>sw eachRule. if eachRule = ExpirationStatusEnabled then False else sw)
                         False rules
                 in if showWarning then
                      (None, emit (Log WarnLevel
                         ''Bucket should have ObjectExpiration lifecycle enabled.'') w1)
                    else (None, emit (Log DebugLevel ''Bucket lifecycle configuration'') w1))))"

text \<open>
  The deferred function of \<^verbatim>\<open>uploadLocalFileToS3\<close>: close the reader, remove the local
  file, warn when the removal fails.
\<close>

definition removeLocalFile :: "env \<Rightarrow> string \<Rightarrow> world \<Rightarrow> world" where
  "removeLocalFile env packagePath w =
     (let w1 = emit (FileClose packagePath) w;
          err = osRemove env w1 packagePath;
          w2 = emit (OsRemove packagePath) w1
      in case err of
           Some e \<Rightarrow> emit (Log WarnLevel ''Failed to delete local file'') w2
         | None \<Rightarrow> w2)"

text \<open>
  \<^verbatim>\<open>uploadLocalFileToS3\<close>. The \<^verbatim>\<open>defer\<close> is registered after the policy check and after
  \<^verbatim>\<open>os.Open\<close>: the two returns before it leave without it.
\<close>

definition uploadLocalFileToS3 ::
  "env \<Rightarrow> string \<Rightarrow> string \<Rightarrow> bool \<Rightarrow> world \<Rightarrow> (error + string) \<times> world" where
  "uploadLocalFileToS3 env packagePath S3Bucket noopFlag w =
     (case ensureExpirationPolicy env S3Bucket noopFlag w of
        (Some err, w1) \<Rightarrow> (Inl (''Failed to ensure bucket policies: '' @ err), w1)
      | (None, w1) \<Rightarrow>
          (case osOpen env w1 packagePath of
             Some err \<Rightarrow>
               (Inl (''Failed to open local archive for S3 upload: '' @ err),
                emit (OsOpen packagePath) w1)
           | None \<Rightarrow>
               (let w2 = emit (OsOpen packagePath) w1;
                    keyName = filepathBase env packagePath
                in if noopFlag then
                     (Inr keyName,
                      removeLocalFile env packagePath
                        (emit (Log InfoLevel
                           ''Bypassing S3 ZIP upload due to -n/-noop command line argument'') w2))
                   else
                     (let w3 = emit (Log InfoLevel ''Uploading local file to S3'') w2;
                          res = s3UploaderUpload env w3 S3Bucket keyName;
                          w4 = emit (S3Upload S3Bucket keyName) w3
                      in case res of
                           Inl err \<Rightarrow> (Inl err, removeLocalFile env packagePath w4)
                         | Inr location \<Rightarrow>
                             (Inr keyName,
                              removeLocalFile env packagePath
                                (emit (Log InfoLevel ''Upload complete'') w4))))))"

section \<open>Workflow step: verifyIAMRoles\<close>

text \<open>
  The body of \<^verbatim>\<open>for _, eachLambda := range ctx.lambdaAWSInfos\<close>. In the else branch the
  source calls \<^verbatim>\<open>eachLambda.RoleDefinition.logicalName()\<close> without a nil check; with
  neither a role name nor a role definition that is a nil pointer dereference.
\<close>

fun verifyIAMRolesLoop ::
  "env \<Rightarrow> LambdaAWSInfo list \<Rightarrow> workflowContext \<Rightarrow> world \<Rightarrow> unit result \<times> workflowContext \<times> world"
where
  "verifyIAMRolesLoop env [] ctx w = (Ok (), ctx, w)"
| "verifyIAMRolesLoop env (eachLambda # rest) ctx w =
     (if RoleName eachLambda \<noteq> [] \<and> RoleDefinition eachLambda \<noteq> None then
        (Err (''Both RoleName and RoleDefinition defined for lambda: '' @ lambdaFnName eachLambda),
         ctx, w)
      else if RoleName eachLambda \<noteq> [] then
        (case map_of (lambdaIAMRoleNameMap ctx) (RoleName eachLambda) of
           Some _ \<Rightarrow> verifyIAMRolesLoop env rest ctx w
         | None \<Rightarrow>
             (let w1 = emit (Log DebugLevel (''Checking IAM RoleName: '' @ RoleName eachLambda)) w;
                  resp = iamGetRole env w1 (RoleName eachLambda);
                  w2 = emit (IAMGetRole (RoleName eachLambda)) w1
              in case resp of
                   Inl err \<Rightarrow> (Err err, ctx, emit (Log ErrorLevel err) w2)
                 | Inr arn \<Rightarrow>
                     verifyIAMRolesLoop env rest
                       (ctx\<lparr>lambdaIAMRoleNameMap :=
                          AList.update (RoleName eachLambda) (StringLit arn) (lambdaIAMRoleNameMap ctx)\<rparr>)
                       w2))
      else
        (case RoleDefinition eachLambda of
           None \<Rightarrow> (Panic ''nil pointer dereference: RoleDefinition'', ctx, w)
         | Some roleDefinition \<Rightarrow>
             (let name = logicalName env roleDefinition in
              case map_of (lambdaIAMRoleNameMap ctx) name of
                Some _ \<Rightarrow> verifyIAMRolesLoop env rest ctx w
              | None \<Rightarrow>
                  verifyIAMRolesLoop env rest
                    (ctx\<lparr>cfTemplate :=
                           AddResource name
                             (toResource env roleDefinition (EventSourceMappings eachLambda))
                             (cfTemplate ctx),
                         lambdaIAMRoleNameMap :=
                           AList.update name (GetAtt name ''Arn'') (lambdaIAMRoleNameMap ctx)\<rparr>)
                    w)))"

definition verifyIAMRoles ::
  "env \<Rightarrow> workflowContext \<Rightarrow> world \<Rightarrow> workflowStep option result \<times> workflowContext \<times> world" where
  "verifyIAMRoles env ctx w =
     (let w1 = emit (Log InfoLevel ''Verifying IAM Lambda execution roles'') w;
          ctx1 = ctx\<lparr>lambdaIAMRoleNameMap := []\<rparr>
      in case verifyIAMRolesLoop env (lambdaAWSInfos ctx1) ctx1 w1 of
           (Ok u, ctx2, w2) \<Rightarrow> (Ok (Some PackageStep), ctx2, emit (Log InfoLevel ''IAM roles verified'') w2)
         | (Err err, ctx2, w2) \<Rightarrow> (Err err, ctx2, w2)
         | (Panic p, ctx2, w2) \<Rightarrow> (Panic p, ctx2, w2))"


section \<open>Workflow step: build and package\<close>

definition customResourceScripts :: "string list" where
  "customResourceScripts =
     [''cfn-response.js'', ''sparta_utils.js'', ''apigateway.js'', ''events.js'', ''logs.js'',
      ''s3.js'', ''ses.js'', ''sns.js'', ''s3Site.js'', ''golang-constants.json'',
      ''apigateway/inputmapping_default.vtl'', ''apigateway/inputmapping_json.vtl'']"

definition provisioningResourcesRelPath :: string where
  "provisioningResourcesRelPath = ''/resources/provision''"

definition createNewNodeJSProxyEntry :: "env \<Rightarrow> LambdaAWSInfo \<Rightarrow> world \<Rightarrow> string \<times> world" where
  \<open>createNewNodeJSProxyEntry env lambdaInfo w =
     (''exports["'' @ jsHandlerName env lambdaInfo @ ''"] = createForwarder("/'' @
        lambdaFnName lambdaInfo @ ''");\<newline>'',
      emit (Log InfoLevel ''Registering Sparta function'') w)\<close>

text \<open>\<^verbatim>\<open>for _, eachLambda := range ctx.lambdaAWSInfos { nodeJSSource += ... }\<close>\<close>

fun proxyEntries :: "env \<Rightarrow> LambdaAWSInfo list \<Rightarrow> string \<Rightarrow> world \<Rightarrow> string \<times> world" where
  "proxyEntries env [] nodeJSSource w = (nodeJSSource, w)"
| "proxyEntries env (eachLambda # rest) nodeJSSource w =
     (case createNewNodeJSProxyEntry env eachLambda w of
        (entry, w1) \<Rightarrow> proxyEntries env rest (nodeJSSource @ entry) w1)"

text \<open>
  The loop over \<^verbatim>\<open>customResourceScripts\<close>. \<^verbatim>\<open>_escFSMustString\<close> panics when the embedded
  resource is missing.
\<close>

fun embedScripts :: "env \<Rightarrow> string \<Rightarrow> string list \<Rightarrow> world \<Rightarrow> unit result \<times> world" where
  "embedScripts env lambdaArchive [] w = (Ok (), w)"
| "embedScripts env lambdaArchive (eachName # rest) w =
     (let resourceName = provisioningResourcesRelPath @ ''/'' @ eachName in
      case escFS env resourceName of
        None \<Rightarrow> (Panic (''_escFSMustString: '' @ resourceName), w)
      | Some resourceContent \<Rightarrow>
          (case zipCreate env w lambdaArchive eachName of
             Some err \<Rightarrow> (Err err, emit (ZipCreate lambdaArchive eachName) w)
           | None \<Rightarrow>
               embedScripts env lambdaArchive rest
                 (emit (ZipWrite lambdaArchive resourceContent)
                    (emit (Log DebugLevel ''Script name'')
                       (emit (ZipCreate lambdaArchive eachName) w)))))"

text \<open>The loop over the files of the embedded \<^verbatim>\<open>node_modules.zip\<close>.\<close>

fun embedNodeModules ::
  "env \<Rightarrow> string \<Rightarrow> string \<Rightarrow> string list \<Rightarrow> world \<Rightarrow> unit result \<times> world" where
  "embedNodeModules env lambdaArchive nodeModuleBytes [] w = (Ok (), w)"
| "embedNodeModules env lambdaArchive nodeModuleBytes (zipFile # rest) w =
     (case zipCreate env w lambdaArchive zipFile of
        Some err \<Rightarrow> (Err err, emit (ZipCreate lambdaArchive zipFile) w)
      | None \<Rightarrow>
          (let w1 = emit (Log DebugLevel ''Copying embedded node_module file'')
                      (emit (ZipCreate lambdaArchive zipFile) w)
           in case zipFileOpen env nodeModuleBytes zipFile of
                Inl err \<Rightarrow> (Err err, w1)
              | Inr content \<Rightarrow>
                  embedNodeModules env lambdaArchive nodeModuleBytes rest
                    (emit (ZipWrite lambdaArchive content) w1)))"

text \<open>
  The package step from \<^verbatim>\<open>io.Copy(binaryWriter, reader)\<close> to its last return. The archive
  writer is named by the temporary file it writes to.
\<close>

definition packageArchiveContents ::
  "env \<Rightarrow> workflowContext \<Rightarrow> string \<Rightarrow> string \<Rightarrow> world \<Rightarrow> workflowStep option result \<times> world" where
  \<open>packageArchiveContents env ctx executableOutput tmpFile w =
     (let w1 = emit (ZipCopyFile tmpFile executableOutput) w in
      case zipCreate env w1 tmpFile ''index.js'' of
        Some err \<Rightarrow> (Err ''Failed to create ZIP entry: index.js'', emit (ZipCreate tmpFile ''index.js'') w1)
      | None \<Rightarrow>
          (let w2 = emit (ZipCreate tmpFile ''index.js'') w1 in
           case escFS env ''/resources/index.js'' of
             None \<Rightarrow> (Panic ''_escFSMustString: /resources/index.js'', w2)
           | Some indexJS \<Rightarrow>
               (case proxyEntries env (lambdaAWSInfos ctx)
                       (indexJS @
                        ''\<newline>// DO NOT EDIT - CONTENT UNTIL EOF IS AUTOMATICALLY GENERATED\<newline>'') w2 of
                  (entries, w3) \<Rightarrow>
                    (let nodeJSSource =
                           entries @
                           ''SPARTA_BINARY_NAME='' @ [CHR 0x27] @ executableOutput @ [CHR 0x27] @
                           '';\<newline>'' @
                           ''SPARTA_SERVICE_NAME='' @ [CHR 0x27] @ serviceName ctx @ [CHR 0x27] @
                           '';\<newline>'';
                         w4 = emit (Log DebugLevel ''Embedding CustomResource scripts'')
                                (emit (ZipWrite tmpFile nodeJSSource)
                                   (emit (Log DebugLevel ''Dynamically generated NodeJS adapter'') w3))
                     in case embedScripts env tmpFile customResourceScripts w4 of
                          (Err err, w5) \<Rightarrow> (Err err, w5)
                        | (Panic p, w5) \<Rightarrow> (Panic p, w5)
                        | (Ok u, w5) \<Rightarrow>
                            (let nodeModulesZipRelName =
                                   provisioningResourcesRelPath @ ''/node_modules.zip''
                             in case escFS env nodeModulesZipRelName of
                                  None \<Rightarrow>
                                    (Ok (Some (UploadStep tmpFile)),
                                     emit (Log WarnLevel
                                        ''Failed to load node_modules.zip for embedding'') w5)
                                | Some nodeModuleBytes \<Rightarrow>
                                    (case zipNewReader env nodeModuleBytes of
                                       Inl err \<Rightarrow> (Err err, w5)
                                     | Inr files \<Rightarrow>
                                         (case embedNodeModules env tmpFile nodeModuleBytes files
                                                 (emit (Log DebugLevel
                                                    ''Embedding CustomResource node_modules.zip'') w5) of
                                            (Err err, w6) \<Rightarrow> (Err err, w6)
                                          | (Panic p, w6) \<Rightarrow> (Panic p, w6)
                                          | (Ok u', w6) \<Rightarrow>
                                              (Ok (Some (UploadStep tmpFile)), w6))))))))\<close>

text \<open>
  From the log line "Creating ZIP archive for upload" on, with the deferred
  \<^verbatim>\<open>reader.Close()\<close> and \<^verbatim>\<open>lambdaArchive.Close()\<close> run on the way out.
\<close>

definition packageArchive ::
  "env \<Rightarrow> workflowContext \<Rightarrow> string \<Rightarrow> string \<Rightarrow> world \<Rightarrow> workflowStep option result \<times> world" where
  "packageArchive env ctx executableOutput tmpFile w =
     (let w1 = emit (Log InfoLevel ''Creating ZIP archive for upload'') w;
          entry = filepathBase env executableOutput
      in case zipCreate env w1 tmpFile entry of
           Some err \<Rightarrow>
             (Err (''Failed to create ZIP entry: '' @ entry),
              emit (ZipClose tmpFile) (emit (ZipCreate tmpFile entry) w1))
         | None \<Rightarrow>
             (let w2 = emit (ZipCreate tmpFile entry) w1 in
              case osOpen env w2 executableOutput of
                Some err \<Rightarrow>
                  (Err (''Failed to open file: '' @ executableOutput),
                   emit (ZipClose tmpFile) (emit (OsOpen executableOutput) w2))
              | None \<Rightarrow>
                  (case packageArchiveContents env ctx executableOutput tmpFile
                          (emit (OsOpen executableOutput) w2) of
                     (r, w3) \<Rightarrow>
                       (r, emit (ZipClose tmpFile) (emit (FileClose executableOutput) w3)))))"

text \<open>From \<^verbatim>\<open>os.Stat(executableOutput)\<close> on, with the deferred \<^verbatim>\<open>tmpFile.Close()\<close>.\<close>

definition packageBinary ::
  "env \<Rightarrow> workflowContext \<Rightarrow> string \<Rightarrow> string \<Rightarrow> world \<Rightarrow> workflowStep option result \<times> world" where
  "packageBinary env ctx sanitizedServiceName executableOutput w =
     (case osStat env w executableOutput of
        Inl err \<Rightarrow> (Err ''Failed to stat build output'', emit (OsStat executableOutput) w)
      | Inr fileSize \<Rightarrow>
          (let w1 = emit (Log InfoLevel ''Executable binary size'') (emit (OsStat executableOutput) w) in
           case temporaryFile env sanitizedServiceName w1 of
             (Inl err, w2) \<Rightarrow> (Err ''Failed to create temporary file'', w2)
           | (Inr tmpFile, w2) \<Rightarrow>
               (case packageArchive env ctx executableOutput tmpFile w2 of
                  (r, w3) \<Rightarrow> (r, emit (FileClose tmpFile) w3))))"

text \<open>
  The standard output and the standard error of the compiler are the writer of the logger
  (\<^verbatim>\<open>ctx.logger.Writer()\<close>), which logs every line it receives at the Info level.
\<close>

fun logOutput :: "string list \<Rightarrow> world \<Rightarrow> world" where
  "logOutput [] w = w"
| "logOutput (l # ls) w = logOutput ls (emit (Log InfoLevel l) w)"

text \<open>
  The closure returned by \<^verbatim>\<open>createPackageStep()\<close>. The build yields the lines it
  printed and its error; the lines are entered in the history as the build ends. The
  removal of the executable is deferred once the build succeeded.
\<close>

definition createPackageStep ::
  "env \<Rightarrow> workflowContext \<Rightarrow> world \<Rightarrow> workflowStep option result \<times> workflowContext \<times> world" where
  "createPackageStep env ctx w =
     (let sanitizedServiceName = sanitizedName env (serviceName ctx);
          executableOutput = sanitizedServiceName @ ''.lambda.amd64'';
          w1 = emit (Log DebugLevel ''Compilation environment'')
                 (emit (Log InfoLevel ''Compiling binary'')
                    (emit (Log DebugLevel ''Building application binary'') w));
          built = execGoBuild env w1 executableOutput;
          w2 = logOutput (fst built) (emit (ExecGoBuild executableOutput) w1)
      in case snd built of
           Some e \<Rightarrow> (Err e, ctx, w2)
         | None \<Rightarrow>
             (case packageBinary env ctx sanitizedServiceName executableOutput w2 of
                (r, w3) \<Rightarrow>
                  (let rmErr = osRemove env w3 executableOutput;
                       w4 = emit (OsRemove executableOutput) w3
                   in case rmErr of
                        Some e \<Rightarrow> (r, ctx, emit (Log WarnLevel ''Failed to delete binary'') w4)
                      | None \<Rightarrow> (r, ctx, w4))))"


section \<open>Workflow step: upload\<close>

text \<open>
  The first goroutine of the upload step: the primary code bundle. The key is stored
  whatever the outcome; an error is appended to \<^verbatim>\<open>uploadErrors\<close>, a success registers
  the rollback of the uploaded object.
\<close>

definition primaryUpload ::
  "env \<Rightarrow> string \<Rightarrow> workflowContext \<Rightarrow> error list \<Rightarrow> world \<Rightarrow> workflowContext \<times> error list \<times> world"
where
  "primaryUpload env packagePath ctx uploadErrors w =
     (case uploadLocalFileToS3 env packagePath (s3Bucket ctx) (noop ctx) w of
        (Inl err, w1) \<Rightarrow> (ctx\<lparr>s3LambdaZipKey := []\<rparr>, uploadErrors @ [err], w1)
      | (Inr keyName, w1) \<Rightarrow>
          (let ctx1 = ctx\<lparr>s3LambdaZipKey := keyName\<rparr> in
           (registerRollback
              (createS3RollbackFunc (s3Bucket ctx1) (s3LambdaZipKey ctx1) (noop ctx1)) ctx1,
            uploadErrors, w1)))"

text \<open>\<^verbatim>\<open>ctx.s3SiteContext.s3SiteLambdaZipKey = s3SiteLambdaZipKey\<close>, through the pointer.\<close>

definition setSiteLambdaZipKey :: "string \<Rightarrow> workflowContext \<Rightarrow> workflowContext" where
  "setSiteLambdaZipKey key ctx =
     ctx\<lparr>s3SiteContext :=
        map_option (\<lambda>siteContext. siteContext\<lparr>s3SiteLambdaZipKey := key\<rparr>) (s3SiteContext ctx)\<rparr>"

text \<open>The second goroutine: archive the site resources and upload the archive.\<close>

definition siteUpload ::
  "env \<Rightarrow> S3Site \<Rightarrow> workflowContext \<Rightarrow> error list \<Rightarrow> world \<Rightarrow> workflowContext \<times> error list \<times> world"
where
  "siteUpload env site ctx uploadErrors w =
     (let tempName = serviceName ctx @ ''-S3Site'' in
      case temporaryFile env tempName w of
        (Inl err, w1) \<Rightarrow>
          (ctx, uploadErrors @ [''Failed to create temporary S3 site archive file''], w1)
      | (Inr tmpFile, w1) \<Rightarrow>
          (case filepathAbs env w1 (resources site) of
             Inl err \<Rightarrow> (ctx, uploadErrors @ [err], emit (FilepathAbs (resources site)) w1)
           | Inr absResourcePath \<Rightarrow>
               (let w2 = emit (Log InfoLevel ''Creating S3Site archive'')
                           (emit (FilepathAbs (resources site)) w1)
                in case addToZip env tmpFile absResourcePath absResourcePath w2 of
                     (Some err, w3) \<Rightarrow> (ctx, uploadErrors @ [err], w3)
                   | (None, w3) \<Rightarrow>
                       (let w4 = emit (FileClose tmpFile) (emit (ZipClose tmpFile) w3) in
                        case uploadLocalFileToS3 env tmpFile (s3Bucket ctx) (noop ctx) w4 of
                          (Inl err, w5) \<Rightarrow>
                            (setSiteLambdaZipKey [] ctx, uploadErrors @ [err], w5)
                        | (Inr key, w5) \<Rightarrow>
                            (registerRollback
                               (createS3RollbackFunc (s3Bucket ctx) key (noop ctx))
                               (setSiteLambdaZipKey key ctx),
                             uploadErrors, w5)))))"

text \<open>
  The loop that builds the aggregate error:
  \<^verbatim>\<open>for _, eachError := range uploadErrors {
       errorText += fmt.Sprintf("%s%s\n", errorText, eachError.Error())
       return nil, errors.New(errorText) }\<close>.
  The \<^verbatim>\<open>return\<close> stands inside the loop body.
\<close>

fun aggregateUploadErrors :: "string \<Rightarrow> error list \<Rightarrow> error option" where
  "aggregateUploadErrors errorText [] = None"
| "aggregateUploadErrors errorText (eachError # rest) =
     Some (errorText @ (errorText @ eachError @ ''\<newline>''))"

definition nilSiteContext :: string where
  "nilSiteContext = ''nil pointer dereference: ctx.s3SiteContext''"

text \<open>
  The closure returned by \<^verbatim>\<open>createUploadStep(packagePath)\<close>. The two goroutines are
  joined by \<^verbatim>\<open>wg.Wait()\<close>; they are run here one after the other, in the order the
  scheduler (a parameter) picks. \<^verbatim>\<open>ctx.s3SiteContext.s3Site\<close> reads through the wrapper
  pointer.
\<close>

definition createUploadStep ::
  "env \<Rightarrow> string \<Rightarrow> workflowContext \<Rightarrow> world \<Rightarrow> workflowStep option result \<times> workflowContext \<times> world"
where
  "createUploadStep env packagePath ctx w =
     (case s3SiteContext ctx of
        None \<Rightarrow> (Panic nilSiteContext, ctx, w)
      | Some siteContext \<Rightarrow>
          (case (case s3Site siteContext of
                   None \<Rightarrow> primaryUpload env packagePath ctx [] w
                 | Some site \<Rightarrow>
                     if primaryUploadFirst env w then
                       (case primaryUpload env packagePath ctx [] w of
                          (ctx1, errs1, w1) \<Rightarrow> siteUpload env site ctx1 errs1 w1)
                     else
                       (case siteUpload env site ctx [] w of
                          (ctx1, errs1, w1) \<Rightarrow> primaryUpload env packagePath ctx1 errs1 w1)) of
             (ctx2, uploadErrors, w2) \<Rightarrow>
               (if length uploadErrors > 0 then
                  (case aggregateUploadErrors
                          ''Encountered multiple errors during upload:\<newline>'' uploadErrors of
                     Some errorText \<Rightarrow> (Err errorText, ctx2, w2)
                   | None \<Rightarrow> (Ok (Some EnsureCloudFormationStack), ctx2, w2))
                else (Ok (Some EnsureCloudFormationStack), ctx2, w2))))"

section \<open>Stack convergence\<close>

text \<open>The status constants of the AWS SDK (service/cloudformation).\<close>

definition StackStatusCreateComplete :: string where
  "StackStatusCreateComplete = ''CREATE_COMPLETE''"

definition StackStatusUpdateComplete :: string where
  "StackStatusUpdateComplete = ''UPDATE_COMPLETE''"

definition StackStatusDeleteComplete :: string where
  "StackStatusDeleteComplete = ''DELETE_COMPLETE''"

definition StackStatusCreateFailed :: string where
  "StackStatusCreateFailed = ''CREATE_FAILED''"

definition StackStatusDeleteFailed :: string where
  "StackStatusDeleteFailed = ''DELETE_FAILED''"

definition StackStatusRollbackFailed :: string where
  "StackStatusRollbackFailed = ''ROLLBACK_FAILED''"

definition StackStatusRollbackComplete :: string where
  "StackStatusRollbackComplete = ''ROLLBACK_COMPLETE''"

definition ResourceStatusCreateFailed :: string where
  "ResourceStatusCreateFailed = ''CREATE_FAILED''"

definition ResourceStatusDeleteFailed :: string where
  "ResourceStatusDeleteFailed = ''DELETE_FAILED''"

definition ResourceStatusUpdateFailed :: string where
  "ResourceStatusUpdateFailed = ''UPDATE_FAILED''"

definition OnFailureDelete :: string where
  "OnFailureDelete = ''DELETE''"

definition stackExists :: "env \<Rightarrow> string \<Rightarrow> world \<Rightarrow> (error + bool) \<times> world" where
  "stackExists env stackNameOrID w =
     (let res = cfDescribeStacks env w stackNameOrID;
          w1 = emit (Log DebugLevel ''DescribeStackOutput results'')
                 (emit (CFDescribeStacks stackNameOrID) w)
      in case res of
           Inl err \<Rightarrow>
             (let w2 = emit (Log DebugLevel ''DescribeStackOutput'') w1 in
              if Contains err ''does not exist'' then (Inr False, w2) else (Inl err, w2))
         | Inr stacks \<Rightarrow> (Inr True, w1))"

text \<open>
  \<^verbatim>\<open>stackEvents\<close>: the pages of \<^verbatim>\<open>DescribeStackEvents\<close>, until a response carries no
  \<^verbatim>\<open>NextToken\<close>. The empty token is the request without one.
\<close>

partial_function (option) stackEventsLoop ::
  "env \<Rightarrow> string \<Rightarrow> string \<Rightarrow> StackEvent list \<Rightarrow> world \<Rightarrow> ((error + StackEvent list) \<times> world) option"
where
  "stackEventsLoop env stackID nextToken events w =
     (let resp = cfDescribeStackEvents env w stackID nextToken;
          w1 = emit (CFDescribeStackEvents stackID nextToken) w
      in case resp of
           Inl err \<Rightarrow> Some (Inl err, w1)
         | Inr (stackEvents, token) \<Rightarrow>
             (case token of
                None \<Rightarrow> Some (Inr (events @ stackEvents), w1)
              | Some t \<Rightarrow> stackEventsLoop env stackID t (events @ stackEvents) w1))"

definition stackEvents ::
  "env \<Rightarrow> string \<Rightarrow> world \<Rightarrow> ((error + StackEvent list) \<times> world) option" where
  "stackEvents env stackID w = stackEventsLoop env stackID [] [] w"

text \<open>
  The \<^verbatim>\<open>switch *stackInfo.StackStatus\<close> of the poll loop. Its first arm sets
  \<^verbatim>\<open>convegeStackStateSucceeded = true; waitComplete = true\<close>, its second arm
  \<^verbatim>\<open>convegeStackStateSucceeded = false; waitComplete = true\<close>, and the default arm
  leaves both variables as they are (false) and logs.
\<close>

datatype statusClass = TerminalSuccess | TerminalFailure | NonTerminal

definition classifyStackStatus :: "string \<Rightarrow> statusClass" where
  "classifyStackStatus status =
     (if status = StackStatusCreateComplete \<or> status = StackStatusUpdateComplete then
        TerminalSuccess
      else if status = StackStatusDeleteComplete \<or> status = StackStatusCreateFailed \<or>
              status = StackStatusDeleteFailed \<or> status = StackStatusRollbackFailed \<or>
              status = StackStatusRollbackComplete then
        TerminalFailure
      else NonTerminal)"

text \<open>
  \<^verbatim>\<open>for waitComplete := false; !waitComplete; { ... }\<close>. The loop ends with the stack
  description and \<^verbatim>\<open>convegeStackStateSucceeded\<close>, or with an error; nothing bounds the
  number of iterations.
\<close>

partial_function (option) pollStack ::
  "env \<Rightarrow> bool \<Rightarrow> string \<Rightarrow> world \<Rightarrow> ((error + Stack \<times> bool) \<times> world) option"
where
  "pollStack env stackExisted stackID w =
     (let w1 = emit (Sleep (11 + randInt31 env w mod 13)) w;
          res = cfDescribeStacks env w1 stackID;
          w2 = emit (CFDescribeStacks stackID) w1
      in case res of
           Inl err \<Rightarrow> Some (Inl err, w2)
         | Inr stacks \<Rightarrow>
             (case stacks of
                [] \<Rightarrow> Some (Inl (''Failed to enumerate stack info: '' @ stackID), w2)
              | stackInfo # others \<Rightarrow>
                  (case classifyStackStatus (StackStatus stackInfo) of
                     TerminalSuccess \<Rightarrow> Some (Inr (stackInfo, True), w2)
                   | TerminalFailure \<Rightarrow> Some (Inr (stackInfo, False), w2)
                   | NonTerminal \<Rightarrow>
                       pollStack env stackExisted stackID
                         (emit (Log InfoLevel
                            (if stackExisted then ''Waiting for UpdateStack to complete''
                             else ''Waiting for CreateStack to complete'')) w2))))"

fun logFailedEvents :: "StackEvent list \<Rightarrow> world \<Rightarrow> world" where
  "logFailedEvents [] w = w"
| "logFailedEvents (eachEvent # rest) w =
     (if ResourceStatus eachEvent = ResourceStatusCreateFailed \<or>
         ResourceStatus eachEvent = ResourceStatusDeleteFailed \<or>
         ResourceStatus eachEvent = ResourceStatusUpdateFailed then
        logFailedEvents rest
          (emit (Log ErrorLevel
             ([CHR 0x09] @ ''Error ensuring '' @ EventResourceType eachEvent @ '' ('' @
              LogicalResourceId eachEvent @ ''): '' @ ResourceStatusReason eachEvent)) w)
      else logFailedEvents rest w)"

fun logStackOutputs :: "(string \<times> string \<times> string) list \<Rightarrow> world \<Rightarrow> world" where
  "logStackOutputs [] w = w"
| "logStackOutputs (eachOutput # rest) w = logStackOutputs rest (emit (Log InfoLevel ''Stack output'') w)"

text \<open>The update request for a stack that exists, the create request otherwise.\<close>

definition submitStack ::
  "env \<Rightarrow> bool \<Rightarrow> string \<Rightarrow> workflowContext \<Rightarrow> world \<Rightarrow> (error + string) \<times> world" where
  "submitStack env stackExisted cfTemplateURL ctx w =
     (let capabilities = stackCapabilities (cfTemplate ctx) in
      if stackExisted then
        (let w1 = emit (CFUpdateStack (serviceName ctx) cfTemplateURL capabilities) w in
         case cfUpdateStack env w (serviceName ctx) cfTemplateURL capabilities of
           Inl err \<Rightarrow> (Inl err, w1)
         | Inr stackID \<Rightarrow> (Inr stackID, emit (Log InfoLevel ''Issued stack update request'') w1))
      else
        (let w1 = emit (CFCreateStack (serviceName ctx) cfTemplateURL capabilities) w in
         case cfCreateStack env w (serviceName ctx) cfTemplateURL capabilities of
           Inl err \<Rightarrow> (Inl err, w1)
         | Inr stackID \<Rightarrow> (Inr stackID, emit (Log InfoLevel ''Creating stack'') w1)))"

definition convergeStackState ::
  "env \<Rightarrow> string \<Rightarrow> workflowContext \<Rightarrow> world \<Rightarrow> ((error + Stack) \<times> world) option" where
  "convergeStackState env cfTemplateURL ctx w =
     (case stackExists env (serviceName ctx) w of
        (Inl err, w1) \<Rightarrow> Some (Inl err, w1)
      | (Inr stackExisted, w1) \<Rightarrow>
          (case submitStack env stackExisted cfTemplateURL ctx w1 of
             (Inl err, w2) \<Rightarrow> Some (Inl err, w2)
           | (Inr stackID, w2) \<Rightarrow>
               (case pollStack env stackExisted stackID w2 of
                  None \<Rightarrow> None
                | Some (Inl err, w3) \<Rightarrow> Some (Inl err, w3)
                | Some (Inr (stackInfo, convegeStackStateSucceeded), w3) \<Rightarrow>
                    (if \<not> convegeStackStateSucceeded then
                       (case stackEvents env stackID w3 of
                          None \<Rightarrow> None
                        | Some (Inl err, w4) \<Rightarrow> Some (Inl err, w4)
                        | Some (Inr events, w4) \<Rightarrow>
                            Some (Inl (''Failed to provision: '' @ serviceName ctx),
                                  logFailedEvents events
                                    (emit (Log ErrorLevel ''Stack provisioning error'') w4)))
                     else Some (Inr stackInfo, logStackOutputs (StackOutputs stackInfo) w3)))))"


section \<open>Workflow step: template synthesis and stack convergence\<close>

definition OutputSpartaHomeKey :: string where
  "OutputSpartaHomeKey = ''SpartaHome''"

definition OutputSpartaVersionKey :: string where
  "OutputSpartaVersionKey = ''SpartaVersion''"

text \<open>
  The export functions mutate the template they are given; a call is modelled by the
  template it leaves (after an error the run stops and the template is not read again).
  \<^verbatim>\<open>for _, eachEntry := range ctx.lambdaAWSInfos { err := eachEntry.export(...) }\<close>
\<close>

fun exportLambdas :: "env \<Rightarrow> LambdaAWSInfo list \<Rightarrow> workflowContext \<Rightarrow> error option \<times> workflowContext"
where
  "exportLambdas env [] ctx = (None, ctx)"
| "exportLambdas env (eachEntry # rest) ctx =
     (case lambdaExport env eachEntry (serviceName ctx) (s3Bucket ctx) (s3LambdaZipKey ctx)
             (lambdaIAMRoleNameMap ctx) (cfTemplate ctx) of
        Inl err \<Rightarrow> (Some err, ctx)
      | Inr template \<Rightarrow> exportLambdas env rest (ctx\<lparr>cfTemplate := template\<rparr>))"

text \<open>
  The API Gateway export into the separate template \<^verbatim>\<open>apiGatewayTemplate\<close> and its
  merge into the shared one. The result carries the separate template for the site export.
\<close>

definition exportAPIGateway ::
  "env \<Rightarrow> workflowContext \<Rightarrow> error option \<times> Template \<times> workflowContext" where
  "exportAPIGateway env ctx =
     (case api ctx of
        None \<Rightarrow> (None, NewTemplate, ctx)
      | Some gateway \<Rightarrow>
          (case apiExport env gateway (s3Bucket ctx) (s3LambdaZipKey ctx)
                  (lambdaIAMRoleNameMap ctx) NewTemplate of
             Inl err \<Rightarrow> (Some ''Failed to export APIGateway template resources'', NewTemplate, ctx)
           | Inr apiGatewayTemplate \<Rightarrow>
               (case safeMergeTemplates env apiGatewayTemplate (cfTemplate ctx) of
                  Inl err \<Rightarrow>
                    (Some ''Failed to export APIGateway template resources'', apiGatewayTemplate, ctx)
                | Inr merged \<Rightarrow> (None, apiGatewayTemplate, ctx\<lparr>cfTemplate := merged\<rparr>))))"

text \<open>The site export; the error it returns is dropped by the source.\<close>

definition exportSite :: "env \<Rightarrow> Template \<Rightarrow> s3SiteContext \<Rightarrow> workflowContext \<Rightarrow> workflowContext" where
  "exportSite env apiGatewayTemplate siteContext ctx =
     (case s3Site siteContext of
        None \<Rightarrow> ctx
      | Some site \<Rightarrow>
          ctx\<lparr>cfTemplate :=
                siteExport env site (s3Bucket ctx) (s3LambdaZipKey ctx)
                  (s3SiteLambdaZipKey siteContext) (Outputs apiGatewayTemplate)
                  (lambdaIAMRoleNameMap ctx) (cfTemplate ctx)\<rparr>)"

text \<open>The two fixed outputs, written over any output of the same name.\<close>

definition saveOutputs :: "env \<Rightarrow> workflowContext \<Rightarrow> workflowContext" where
  "saveOutputs env ctx =
     ctx\<lparr>cfTemplate :=
           (cfTemplate ctx)\<lparr>Outputs :=
              AList.update OutputSpartaVersionKey
                \<lparr>OutputDescription = ''Sparta Version'', OutputValue = StringLit (SpartaVersion env)\<rparr>
                (AList.update OutputSpartaHomeKey
                   \<lparr>OutputDescription = ''Sparta Home'', OutputValue = StringLit ''http://gosparta.io''\<rparr>
                   (Outputs (cfTemplate ctx)))\<rparr>\<rparr>"

text \<open>\<^verbatim>\<open>for _, eachDependsKey := range eachResource.DependsOn { ... }\<close>\<close>

fun insertDependencyOutputs ::
  "env \<Rightarrow> Template \<Rightarrow> string list \<Rightarrow> Resource \<Rightarrow> world \<Rightarrow> Resource \<times> world" where
  "insertDependencyOutputs env template [] eachResource w = (eachResource, w)"
| "insertDependencyOutputs env template (eachDependsKey # rest) eachResource w =
     (let dependencyOutputs = outputsForResource env template eachDependsKey in
      if length dependencyOutputs \<noteq> 0 then
        insertDependencyOutputs env template rest
          (safeMetadataInsert env eachResource eachDependsKey (MetaOutputs dependencyOutputs))
          (emit (Log DebugLevel ''Resource metadata'') w)
      else insertDependencyOutputs env template rest eachResource w)"

definition annotateLambdaResource ::
  "env \<Rightarrow> Template \<Rightarrow> Resource \<Rightarrow> world \<Rightarrow> Resource \<times> world" where
  "annotateLambdaResource env template eachResource w =
     (if ResourceType eachResource = ''AWS::Lambda::Function'' then
        (case insertDependencyOutputs env template (DependsOn eachResource) eachResource w of
           (res, w1) \<Rightarrow>
             (safeMetadataInsert env
                (safeMetadataInsert env
                   (safeMetadataInsert env res (TagStackRegion env) (MetaExpr (Ref ''AWS::Region'')))
                   (TagStackID env) (MetaExpr (Ref ''AWS::StackId'')))
                (TagStackName env) (MetaExpr (Ref ''AWS::StackName'')),
              w1))
      else (eachResource, w))"

text \<open>
  \<^verbatim>\<open>for _, eachResource := range ctx.cfTemplate.Resources { ... }\<close>: the resources are
  visited by key and updated in place.
\<close>

fun annotateResources :: "env \<Rightarrow> string list \<Rightarrow> Template \<Rightarrow> world \<Rightarrow> Template \<times> world" where
  "annotateResources env [] template w = (template, w)"
| "annotateResources env (key # rest) template w =
     (case map_of (Resources template) key of
        None \<Rightarrow> annotateResources env rest template w
      | Some eachResource \<Rightarrow>
          (case annotateLambdaResource env template eachResource w of
             (res, w1) \<Rightarrow>
               annotateResources env rest
                 (template\<lparr>Resources := AList.update key res (Resources template)\<rparr>) w1))"

text \<open>
  The second half of the closure returned by \<^verbatim>\<open>ensureCloudFormationStack()\<close>: marshal
  the template, write it to the sink when there is one, and, unless this is a no-op run,
  upload it and converge the stack. \<^verbatim>\<open>json.MarshalIndent\<close> is applied to
  \<^verbatim>\<open>contentBody\<close>, the marshalled template as a string.
\<close>

definition publishTemplate ::
  "env \<Rightarrow> workflowContext \<Rightarrow> world \<Rightarrow> (workflowStep option result \<times> workflowContext \<times> world) option"
where
  "publishTemplate env ctx w =
     (case jsonMarshal env (cfTemplate ctx) of
        Inl err \<Rightarrow>
          Some (Err err, ctx,
                emit (Log ErrorLevel (''Failed to Marshal CloudFormation template: '' @ err)) w)
      | Inr contentBody \<Rightarrow>
          (let sanitizedServiceName = sanitizedName env (serviceName ctx);
               s3keyName = sanitizedServiceName @ ''-'' @ sha1Hex env contentBody @ ''-cf.json''
           in case jsonMarshalIndent env contentBody of
                Inl err \<Rightarrow> Some (Err err, ctx, w)
              | Inr formatted \<Rightarrow>
                  (let w1 = emit (Log DebugLevel ''CloudFormation template body'') w;
                       w2 = (case templateWriter ctx of
                               None \<Rightarrow> w1
                             | Some sink \<Rightarrow> emit (WriteString sink formatted) w1)
                   in if noop ctx then
                        Some (Ok None, ctx,
                              emit (Log InfoLevel
                                ''Bypassing template upload & creation due to -n/-noop command line argument'')
                                w2)
                      else
                        (let w3 = emit (Log InfoLevel ''Uploading CloudFormation template'') w2;
                             res = s3UploaderUpload env w3 (s3Bucket ctx) s3keyName;
                             w4 = emit (S3Upload (s3Bucket ctx) s3keyName) w3
                         in case res of
                              Inl err \<Rightarrow> Some (Err err, ctx, w4)
                            | Inr location \<Rightarrow>
                                (let ctx1 = registerRollback
                                              (createS3RollbackFunc (s3Bucket ctx) s3keyName (noop ctx))
                                              ctx;
                                     w5 = emit (Log InfoLevel ''Template uploaded'') w4
                                 in case convergeStackState env location ctx1 w5 of
                                      None \<Rightarrow> None
                                    | Some (Inl err, w6) \<Rightarrow> Some (Err err, ctx1, w6)
                                    | Some (Inr stack, w6) \<Rightarrow>
                                        Some (Ok None, ctx1,
                                              emit (Log InfoLevel ''Stack provisioned'') w6))))))"

text \<open>
  The first half of the closure returned by \<^verbatim>\<open>ensureCloudFormationStack()\<close>, up to
  the metadata pass: the exports of the functions, of the API Gateway and of the site,
  the two fixed outputs and the metadata of the Lambda resources. The site export reads
  \<^verbatim>\<open>ctx.s3SiteContext.s3Site\<close> through the wrapper pointer.
\<close>

definition synthesizeTemplate ::
  "env \<Rightarrow> workflowContext \<Rightarrow> world \<Rightarrow> unit result \<times> workflowContext \<times> world" where
  "synthesizeTemplate env ctx w =
     (case exportLambdas env (lambdaAWSInfos ctx) ctx of
        (Some err, ctx1) \<Rightarrow> (Err err, ctx1, w)
      | (None, ctx1) \<Rightarrow>
          (case exportAPIGateway env ctx1 of
             (Some err, apiGatewayTemplate, ctx2) \<Rightarrow> (Err err, ctx2, w)
           | (None, apiGatewayTemplate, ctx2) \<Rightarrow>
               (case s3SiteContext ctx2 of
                  None \<Rightarrow> (Panic nilSiteContext, ctx2, w)
                | Some siteContext \<Rightarrow>
                    (let ctx3 = saveOutputs env (exportSite env apiGatewayTemplate siteContext ctx2) in
                     case annotateResources env (map fst (Resources (cfTemplate ctx3)))
                             (cfTemplate ctx3) w of
                       (template, w1) \<Rightarrow> (Ok (), ctx3\<lparr>cfTemplate := template\<rparr>, w1)))))"

text \<open>The closure returned by \<^verbatim>\<open>ensureCloudFormationStack()\<close>: both halves.\<close>

definition ensureCloudFormationStack ::
  "env \<Rightarrow> workflowContext \<Rightarrow> world \<Rightarrow> (workflowStep option result \<times> workflowContext \<times> world) option"
where
  "ensureCloudFormationStack env ctx w =
     (case synthesizeTemplate env ctx w of
        (Err err, ctx1, w1) \<Rightarrow> Some (Err err, ctx1, w1)
      | (Panic p, ctx1, w1) \<Rightarrow> Some (Panic p, ctx1, w1)
      | (Ok u, ctx1, w1) \<Rightarrow> publishTemplate env ctx1 w1)"

section \<open>The workflow engine and Provision\<close>

text \<open>Calling a step value: \<^verbatim>\<open>step(ctx)\<close>.\<close>

fun runStep ::
  "env \<Rightarrow> workflowStep \<Rightarrow> workflowContext \<Rightarrow> world \<Rightarrow>
     (workflowStep option result \<times> workflowContext \<times> world) option" where
  "runStep env VerifyIAMRoles ctx w = Some (verifyIAMRoles env ctx w)"
| "runStep env PackageStep ctx w = Some (createPackageStep env ctx w)"
| "runStep env (UploadStep packagePath) ctx w = Some (createUploadStep env packagePath ctx w)"
| "runStep env EnsureCloudFormationStack ctx w = ensureCloudFormationStack env ctx w"

text \<open>
  \<^verbatim>\<open>for step := verifyIAMRoles; step != nil; { next, err := step(ctx) ... }\<close>: an error
  runs the rollback functions and is returned, a nil next step logs the elapsed time
  and ends the loop, any other next step is run. A panic leaves the loop at once.
\<close>

partial_function (option) workflowLoop ::
  "env \<Rightarrow> workflowStep \<Rightarrow> workflowContext \<Rightarrow> world \<Rightarrow> (unit result \<times> workflowContext \<times> world) option"
where
  "workflowLoop env step ctx w =
     (case runStep env step ctx w of
        None \<Rightarrow> None
      | Some (Panic p, ctx1, w1) \<Rightarrow> Some (Panic p, ctx1, w1)
      | Some (Err err, ctx1, w1) \<Rightarrow> Some (Err err, ctx1, rollback env ctx1 w1)
      | Some (Ok None, ctx1, w1) \<Rightarrow> Some (Ok (), ctx1, emit (Log InfoLevel ''Elapsed time'') w1)
      | Some (Ok (Some next), ctx1, w1) \<Rightarrow> workflowLoop env next ctx1 w1)"

text \<open>
  The context literal of \<^verbatim>\<open>Provision\<close>. The site wrapper is allocated with
  \<^verbatim>\<open>&s3SiteContext{s3Site: site}\<close> whatever \<^verbatim>\<open>site\<close> is; the fields the literal does
  not name hold their zero values.
\<close>

definition newWorkflowContext ::
  "bool \<Rightarrow> string \<Rightarrow> string \<Rightarrow> LambdaAWSInfo list \<Rightarrow> API option \<Rightarrow> S3Site option \<Rightarrow> string \<Rightarrow>
     string option \<Rightarrow> workflowContext" where
  "newWorkflowContext noopFlag name description lambdas gateway site bucket writer =
     \<lparr>noop = noopFlag,
      serviceName = name,
      serviceDescription = description,
      lambdaAWSInfos = lambdas,
      api = gateway,
      s3SiteContext = Some \<lparr>s3Site = site, s3SiteLambdaZipKey = []\<rparr>,
      cfTemplate = NewTemplate\<lparr>Description := description\<rparr>,
      lambdaIAMRoleNameMap = [],
      s3Bucket = bucket,
      s3LambdaZipKey = [],
      templateWriter = writer,
      rollbackFunctions = []\<rparr>"

text \<open>
  \<^verbatim>\<open>func Provision(noop, serviceName, serviceDescription, lambdaAWSInfos, api, site,
  s3Bucket, templateWriter, logger) error\<close>, started in the history \<open>w\<close>. The result is
  the returned error (\<open>Ok ()\<close> for nil) with the history at the return, or \<open>None\<close> when the
  call never returns.
\<close>

definition Provision ::
  "env \<Rightarrow> bool \<Rightarrow> string \<Rightarrow> string \<Rightarrow> LambdaAWSInfo list \<Rightarrow> API option \<Rightarrow> S3Site option \<Rightarrow> string \<Rightarrow>
     string option \<Rightarrow> world \<Rightarrow> (unit result \<times> world) option" where
  "Provision env noopFlag name description lambdas gateway site bucket writer w =
     (let ctx = newWorkflowContext noopFlag name description lambdas gateway site bucket writer in
      if length lambdas \<le> 0 then
        Some (Err ''No lambda functions provided to Sparta.Provision()'', w)
      else
        (case workflowLoop env VerifyIAMRoles ctx w of
           None \<Rightarrow> None
         | Some (r, ctx1, w1) \<Rightarrow> Some (r, w1)))"

section \<open>A concrete environment\<close>

text \<open>
  An environment in which every collaborator succeeds: it is the starting point of the
  concrete runs below, which replace single fields to make a call fail.
\<close>

definition demoStack :: "string \<Rightarrow> Stack" where
  "demoStack status =
     \<lparr>StackId = ''stack-1'', StackName = ''demo'', StackStatus = status, StackOutputs = [],
      CreationTime = ''now''\<rparr>"

definition demoEnv :: env where
  \<open>demoEnv =
     \<lparr>iamGetRole = (\<lambda>w name. Inr (''arn:aws:iam::role/'' @ name)),
      s3GetBucketLifecycle = (\<lambda>w bucket. Inr [''Enabled'']),
      s3UploaderUpload = (\<lambda>w bucket key. Inr (''https://s3/'' @ bucket @ ''/'' @ key)),
      s3DeleteObject = (\<lambda>w bucket key. None),
      cfDescribeStacks = (\<lambda>w name. Inl (''Stack '' @ name @ '' does not exist'')),
      cfUpdateStack = (\<lambda>w name url caps. Inr ''stack-1''),
      cfCreateStack = (\<lambda>w name url caps. Inr ''stack-1''),
      cfDescribeStackEvents = (\<lambda>w stackID token. Inr ([], None)),
      randInt31 = (\<lambda>w. 0),
      execGoBuild = (\<lambda>w output. ([], None)),
      osGetwd = (\<lambda>w. Inr ''/work''),
      osStat = (\<lambda>w path. Inr 1024),
      osOpen = (\<lambda>w path. None),
      osRemove = (\<lambda>w path. None),
      ioutilTempFile = (\<lambda>w dir name. Inr (dir @ ''/'' @ name @ ''001'')),
      filepathAbs = (\<lambda>w path. Inr path),
      filepathBase = (\<lambda>path. rev (takeWhile (\<lambda>c. c \<noteq> CHR ''/'') (rev path))),
      zipCreate = (\<lambda>w archive entry. None),
      zipNewReader = (\<lambda>bytes. Inr []),
      zipFileOpen = (\<lambda>bytes name. Inr []),
      addToZipFiles = (\<lambda>w archive source root. None),
      escFS = (\<lambda>name. if name = ''/resources/provision/node_modules.zip'' then None
                       else Some (''// '' @ name)),
      sanitizedName = (\<lambda>name. name),
      jsHandlerName = (\<lambda>lambdaInfo. lambdaFnName lambdaInfo),
      logicalName = (\<lambda>roleDefinition. ''IAMRole'' @ concat (Privileges roleDefinition)),
      toResource = (\<lambda>roleDefinition mappings.
         \<lparr>ResourceType = ''AWS::IAM::Role'', DependsOn = [], Metadata = []\<rparr>),
      lambdaExport = (\<lambda>lambdaInfo service bucket key roles template.
         Inr (AddResource (lambdaFnName lambdaInfo)
                \<lparr>ResourceType = ''AWS::Lambda::Function'', DependsOn = [], Metadata = []\<rparr> template)),
      apiExport = (\<lambda>gateway bucket key roles template. Inr template),
      safeMergeTemplates = (\<lambda>source target. Inr target),
      siteExport = (\<lambda>site bucket key siteKey outputs roles template. template),
      outputsForResource = (\<lambda>template key. []),
      safeMetadataInsert = (\<lambda>res key v.
         if map_of (Metadata res) key = None then res\<lparr>Metadata := Metadata res @ [(key, v)]\<rparr>
         else res),
      jsonMarshal = (\<lambda>template. Inr (''{'' @ concat (map fst (Resources template)) @ ''}'')),
      jsonMarshalIndent = (\<lambda>body. Inr (''"'' @ body @ ''"'')),
      sha1Hex = (\<lambda>body. ''da39a3ee''),
      SpartaVersion = ''0.1.0'',
      TagStackRegion = ''StackRegion'',
      TagStackID = ''StackId'',
      TagStackName = ''StackName'',
      primaryUploadFirst = (\<lambda>w. True)\<rparr>\<close>

text \<open>
  A stack that is still being created at the first poll and has reached \<open>final\<close> at the
  second one.
\<close>

definition pollEnv :: "string \<Rightarrow> env" where
  "pollEnv final =
     demoEnv\<lparr>cfDescribeStacks := (\<lambda>w name.
        if CFDescribeStacks name \<in> set w then Inr [demoStack final]
        else Inr [demoStack ''CREATE_IN_PROGRESS''])\<rparr>"

text \<open>Descriptors for the concrete runs.\<close>

definition demoLambda :: LambdaAWSInfo where
  "demoLambda =
     \<lparr>lambdaFnName = ''hello'', RoleName = [],
      RoleDefinition = Some (IAMRoleDefinition [''s3:GetObject'']), EventSourceMappings = []\<rparr>"

definition firstExecLambda :: LambdaAWSInfo where
  "firstExecLambda =
     \<lparr>lambdaFnName = ''first'', RoleName = ''exec'', RoleDefinition = None,
      EventSourceMappings = []\<rparr>"

definition secondExecLambda :: LambdaAWSInfo where
  "secondExecLambda =
     \<lparr>lambdaFnName = ''second'', RoleName = ''exec'', RoleDefinition = None,
      EventSourceMappings = []\<rparr>"

definition conflictingLambda :: LambdaAWSInfo where
  "conflictingLambda =
     \<lparr>lambdaFnName = ''broken'', RoleName = ''other'',
      RoleDefinition = Some (IAMRoleDefinition [''s3:PutObject'']), EventSourceMappings = []\<rparr>"

definition demoSite :: S3Site where
  "demoSite = \<lparr>resources = ''./site''\<rparr>"

text \<open>The local archive cannot be opened and no temporary file can be created.\<close>

definition brokenDiskEnv :: env where
  "brokenDiskEnv =
     demoEnv\<lparr>osOpen := (\<lambda>w path. Some (''open '' @ path @ '': no such file or directory'')),
             ioutilTempFile := (\<lambda>w dir name. Inl ''permission denied'')\<rparr>"

text \<open>The lifecycle configuration of the bucket cannot be read.\<close>

definition deniedEnv :: env where
  "deniedEnv = demoEnv\<lparr>s3GetBucketLifecycle := (\<lambda>w bucket. Inl ''AccessDenied'')\<rparr>"

text \<open>The upload itself is refused.\<close>

definition uploadRefusedEnv :: env where
  "uploadRefusedEnv = demoEnv\<lparr>s3UploaderUpload := (\<lambda>w bucket key. Inl ''RequestTimeout'')\<rparr>"

section \<open>Notions used to state the properties\<close>

text \<open>
  One turn of the engine loop that goes on: the step returned no error and a next step.
\<close>

definition advances ::
  "env \<Rightarrow> workflowStep \<times> workflowContext \<times> world \<Rightarrow> workflowStep \<times> workflowContext \<times> world \<Rightarrow> bool"
where
  "advances env a b =
     (runStep env (fst a) (fst (snd a)) (snd (snd a)) = Some (Ok (Some (fst b)), snd b))"

text \<open>
  The event by which a call of a rollback function shows in the history: the delete
  request, or the bypass log line of a function built in no-op mode.
\<close>

fun rollbackCall :: "rollbackFunction \<Rightarrow> event" where
  "rollbackCall (S3RollbackFunc bucket s3Key noopFlag) =
     (if noopFlag then Log InfoLevel ''Bypassing rollback cleanup ''
      else S3DeleteObject bucket s3Key)"

fun isRollbackCall :: "event \<Rightarrow> bool" where
  "isRollbackCall (S3DeleteObject bucket s3Key) = True"
| "isRollbackCall (Log l message) = (l = InfoLevel \<and> message = ''Bypassing rollback cleanup '')"
| "isRollbackCall e = False"

text \<open>The template export of a function descriptor fails.\<close>

definition exportFailsEnv :: env where
  "exportFailsEnv =
     demoEnv\<lparr>lambdaExport := (\<lambda>lambdaInfo service bucket key roles template. Inl ''export failed'')\<rparr>"

text \<open>
  The calls to S3 and CloudFormation that a no-op run leaves out: the upload, the stack
  create and update requests, the describe-stack call, and with them the bucket
  lifecycle lookup, the object delete and the stack-events call.
\<close>

fun skippedInNoop :: "event \<Rightarrow> bool" where
  "skippedInNoop (S3Upload bucket key) = True"
| "skippedInNoop (CFCreateStack name url capabilities) = True"
| "skippedInNoop (CFUpdateStack name url capabilities) = True"
| "skippedInNoop (CFDescribeStacks name) = True"
| "skippedInNoop (CFDescribeStackEvents stackID token) = True"
| "skippedInNoop (S3GetBucketLifecycleConfiguration bucket) = True"
| "skippedInNoop (S3DeleteObject bucket key) = True"
| "skippedInNoop e = False"

text \<open>The history \<open>w1\<close> extends \<open>w\<close> by events that are none of these calls.\<close>

definition quiet :: "world \<Rightarrow> world \<Rightarrow> bool" where
  "quiet w w1 = (take (length w) w1 = w \<and> filter skippedInNoop (drop (length w) w1) = [])"

fun builtInNoop :: "rollbackFunction \<Rightarrow> bool" where
  "builtInNoop (S3RollbackFunc bucket s3Key noopFlag) = noopFlag"



section \<open>Properties of stackCapabilities\<close>

lemma capabilities_saturated:
  "foldl capabilityStep [''CAPABILITY_IAM''] rs = [''CAPABILITY_IAM'']"
  by (induction rs) (simp_all add: capabilityStep_def capabilityFound_def)

lemma capabilities_from_empty:
  "foldl capabilityStep [] rs =
     (if filter (\<lambda>r. ResourceType (snd r) = ''AWS::IAM::Role'') rs = [] then []
      else [''CAPABILITY_IAM''])"
proof (induction rs)
  case Nil
  then show ?case by simp
next
  case (Cons r rs)
  show ?case
  proof (cases "ResourceType (snd r) = ''AWS::IAM::Role''")
    case True
    then have "capabilityStep [] r = [''CAPABILITY_IAM'']"
      by (simp add: capabilityStep_def capabilityFound_def)
    with True show ?thesis by (simp add: capabilities_saturated)
  next
    case False
    then have "capabilityStep [] r = []" by (simp add: capabilityStep_def)
    with False Cons show ?thesis by simp
  qed
qed

text \<open>
  C4. For every template, \<open>stackCapabilities\<close> returns the empty list when the template
  has no resource of type \<^verbatim>\<open>AWS::IAM::Role\<close>, and the list holding \<^verbatim>\<open>CAPABILITY_IAM\<close>
  exactly once when it has one or more, however many there are and in whatever order
  the resources are visited.
\<close>

theorem stackCapabilities_iam:
  "stackCapabilities template =
     (if length (filter (\<lambda>r. ResourceType (snd r) = ''AWS::IAM::Role'') (Resources template)) = 0
      then [] else [''CAPABILITY_IAM''])"
  by (simp add: stackCapabilities_def capabilities_from_empty)

theorem stackCapabilities_iam_witness:
  "stackCapabilities
     \<lparr>Description = ''demo'',
      Resources =
        [(''RoleA'', \<lparr>ResourceType = ''AWS::IAM::Role'', DependsOn = [], Metadata = []\<rparr>),
         (''Fn'', \<lparr>ResourceType = ''AWS::Lambda::Function'', DependsOn = [''RoleA''], Metadata = []\<rparr>),
         (''RoleB'', \<lparr>ResourceType = ''AWS::IAM::Role'', DependsOn = [], Metadata = []\<rparr>)],
      Outputs = []\<rparr> = [''CAPABILITY_IAM'']
   \<and> stackCapabilities
     \<lparr>Description = ''demo'',
      Resources =
        [(''Fn'', \<lparr>ResourceType = ''AWS::Lambda::Function'', DependsOn = [], Metadata = []\<rparr>)],
      Outputs = []\<rparr> = []"
  by (simp add: stackCapabilities_iam)

section \<open>Properties of the convergence poll loop\<close>

lemma classify_success:
  "(classifyStackStatus status = TerminalSuccess) =
     (status \<in> {''CREATE_COMPLETE'', ''UPDATE_COMPLETE''})"
  by (simp add: classifyStackStatus_def StackStatusCreateComplete_def StackStatusUpdateComplete_def
      StackStatusDeleteComplete_def StackStatusCreateFailed_def StackStatusDeleteFailed_def
      StackStatusRollbackFailed_def StackStatusRollbackComplete_def)

lemma classify_failure:
  "(classifyStackStatus status = TerminalFailure) =
     (status \<in> {''DELETE_COMPLETE'', ''CREATE_FAILED'', ''DELETE_FAILED'', ''ROLLBACK_FAILED'',
                 ''ROLLBACK_COMPLETE''})"
  by (auto simp add: classifyStackStatus_def StackStatusCreateComplete_def StackStatusUpdateComplete_def
      StackStatusDeleteComplete_def StackStatusCreateFailed_def StackStatusDeleteFailed_def
      StackStatusRollbackFailed_def StackStatusRollbackComplete_def)

lemma classify_nonterminal:
  "(classifyStackStatus status = NonTerminal) =
     (status \<notin> {''CREATE_COMPLETE'', ''UPDATE_COMPLETE'', ''DELETE_COMPLETE'', ''CREATE_FAILED'',
                 ''DELETE_FAILED'', ''ROLLBACK_FAILED'', ''ROLLBACK_COMPLETE''})"
  by (auto simp add: classifyStackStatus_def StackStatusCreateComplete_def StackStatusUpdateComplete_def
      StackStatusDeleteComplete_def StackStatusCreateFailed_def StackStatusDeleteFailed_def
      StackStatusRollbackFailed_def StackStatusRollbackComplete_def)

lemma pollStack_answer:
  assumes "cfDescribeStacks env (emit (Sleep (11 + randInt31 env w mod 13)) w) stackID =
             Inr (stackInfo # others)"
  shows "pollStack env stackExisted stackID w =
     (case classifyStackStatus (StackStatus stackInfo) of
        TerminalSuccess \<Rightarrow>
          Some (Inr (stackInfo, True),
                emit (CFDescribeStacks stackID) (emit (Sleep (11 + randInt31 env w mod 13)) w))
      | TerminalFailure \<Rightarrow>
          Some (Inr (stackInfo, False),
                emit (CFDescribeStacks stackID) (emit (Sleep (11 + randInt31 env w mod 13)) w))
      | NonTerminal \<Rightarrow>
          pollStack env stackExisted stackID
            (emit (Log InfoLevel
                     (if stackExisted then ''Waiting for UpdateStack to complete''
                      else ''Waiting for CreateStack to complete''))
               (emit (CFDescribeStacks stackID) (emit (Sleep (11 + randInt31 env w mod 13)) w))))"
  using assms by (subst pollStack.simps) (simp add: Let_def)

text \<open>
  C3. The stack-status classification of the convergence poll loop: CREATE_COMPLETE and
  UPDATE_COMPLETE are the terminal successes; DELETE_COMPLETE, CREATE_FAILED,
  DELETE_FAILED, ROLLBACK_FAILED and ROLLBACK_COMPLETE are the terminal failures; every
  other status string is non-terminal. One iteration of the loop whose describe call
  answers with a stack in status \<open>status\<close> ends the loop with success in the first case
  and with failure in the second, and goes on polling (after the progress log line) in
  the third.
\<close>

theorem stack_status_classification:
  "(classifyStackStatus status = TerminalSuccess) =
     (status \<in> {''CREATE_COMPLETE'', ''UPDATE_COMPLETE''}) \<and>
   (classifyStackStatus status = TerminalFailure) =
     (status \<in> {''DELETE_COMPLETE'', ''CREATE_FAILED'', ''DELETE_FAILED'', ''ROLLBACK_FAILED'',
                 ''ROLLBACK_COMPLETE''}) \<and>
   (classifyStackStatus status = NonTerminal) =
     (status \<notin> {''CREATE_COMPLETE'', ''UPDATE_COMPLETE'', ''DELETE_COMPLETE'', ''CREATE_FAILED'',
                 ''DELETE_FAILED'', ''ROLLBACK_FAILED'', ''ROLLBACK_COMPLETE''}) \<and>
   (cfDescribeStacks env (emit (Sleep (11 + randInt31 env w mod 13)) w) stackID =
      Inr (stackInfo # others) \<longrightarrow>
    (let w2 = emit (CFDescribeStacks stackID) (emit (Sleep (11 + randInt31 env w mod 13)) w) in
     (StackStatus stackInfo = status \<and> status \<in> {''CREATE_COMPLETE'', ''UPDATE_COMPLETE''} \<longrightarrow>
        pollStack env stackExisted stackID w = Some (Inr (stackInfo, True), w2)) \<and>
     (StackStatus stackInfo = status \<and>
      status \<in> {''DELETE_COMPLETE'', ''CREATE_FAILED'', ''DELETE_FAILED'', ''ROLLBACK_FAILED'',
                 ''ROLLBACK_COMPLETE''} \<longrightarrow>
        pollStack env stackExisted stackID w = Some (Inr (stackInfo, False), w2)) \<and>
     (StackStatus stackInfo = status \<and>
      status \<notin> {''CREATE_COMPLETE'', ''UPDATE_COMPLETE'', ''DELETE_COMPLETE'', ''CREATE_FAILED'',
                 ''DELETE_FAILED'', ''ROLLBACK_FAILED'', ''ROLLBACK_COMPLETE''} \<longrightarrow>
        pollStack env stackExisted stackID w =
          pollStack env stackExisted stackID
            (emit (Log InfoLevel
                     (if stackExisted then ''Waiting for UpdateStack to complete''
                      else ''Waiting for CreateStack to complete'')) w2))))"
proof -
  have "classifyStackStatus (StackStatus stackInfo) = TerminalSuccess"
    if "StackStatus stackInfo \<in> {''CREATE_COMPLETE'', ''UPDATE_COMPLETE''}"
    using that classify_success by blast
  moreover have "classifyStackStatus (StackStatus stackInfo) = TerminalFailure"
    if "StackStatus stackInfo \<in> {''DELETE_COMPLETE'', ''CREATE_FAILED'', ''DELETE_FAILED'',
          ''ROLLBACK_FAILED'', ''ROLLBACK_COMPLETE''}"
    using that classify_failure by blast
  moreover have "classifyStackStatus (StackStatus stackInfo) = NonTerminal"
    if "StackStatus stackInfo \<notin> {''CREATE_COMPLETE'', ''UPDATE_COMPLETE'', ''DELETE_COMPLETE'',
          ''CREATE_FAILED'', ''DELETE_FAILED'', ''ROLLBACK_FAILED'', ''ROLLBACK_COMPLETE''}"
    using that classify_nonterminal by blast
  ultimately show ?thesis
    using classify_success [of status] classify_failure [of status] classify_nonterminal [of status]
      pollStack_answer [of env w stackID stackInfo others stackExisted]
    by (simp only: Let_def) (metis statusClass.simps(7,8,9))
qed

theorem stack_status_classification_witness:
  "pollStack (pollEnv ''CREATE_COMPLETE'') False ''stack-1'' [] =
     Some (Inr (demoStack ''CREATE_COMPLETE'', True),
           [Sleep 11, CFDescribeStacks ''stack-1'',
            Log InfoLevel ''Waiting for CreateStack to complete'',
            Sleep 11, CFDescribeStacks ''stack-1'']) \<and>
   pollStack (pollEnv ''ROLLBACK_COMPLETE'') True ''stack-1'' [] =
     Some (Inr (demoStack ''ROLLBACK_COMPLETE'', False),
           [Sleep 11, CFDescribeStacks ''stack-1'',
            Log InfoLevel ''Waiting for UpdateStack to complete'',
            Sleep 11, CFDescribeStacks ''stack-1''])"
  using
    stack_status_classification [of "''CREATE_IN_PROGRESS''" "pollEnv ''CREATE_COMPLETE''" "[]"
      "''stack-1''" "demoStack ''CREATE_IN_PROGRESS''" "[]" False]
    stack_status_classification [of "''CREATE_COMPLETE''" "pollEnv ''CREATE_COMPLETE''"
      "[Sleep 11, CFDescribeStacks ''stack-1'', Log InfoLevel ''Waiting for CreateStack to complete'']"
      "''stack-1''" "demoStack ''CREATE_COMPLETE''" "[]" False]
    stack_status_classification [of "''CREATE_IN_PROGRESS''" "pollEnv ''ROLLBACK_COMPLETE''" "[]"
      "''stack-1''" "demoStack ''CREATE_IN_PROGRESS''" "[]" True]
    stack_status_classification [of "''ROLLBACK_COMPLETE''" "pollEnv ''ROLLBACK_COMPLETE''"
      "[Sleep 11, CFDescribeStacks ''stack-1'', Log InfoLevel ''Waiting for UpdateStack to complete'']"
      "''stack-1''" "demoStack ''ROLLBACK_COMPLETE''" "[]" True]
  by (simp add: pollEnv_def demoEnv_def demoStack_def emit_def Let_def)

section \<open>Properties of Provision on an empty descriptor list\<close>

text \<open>
  C1. For every call of \<open>Provision\<close> with an empty list of function descriptors, in any
  environment and from any history, the call returns the error "No lambda functions
  provided to Sparta.Provision()" and the history at the return is the history at the
  call: no workflow step has run and no call to the network or the file system was made.
\<close>

theorem provision_no_lambdas:
  "Provision env noopFlag name description [] gateway site bucket writer w =
     Some (Err ''No lambda functions provided to Sparta.Provision()'', w)"
  by (simp add: Provision_def)

section \<open>Properties of the upload step\<close>

lemma aggregate_keeps_first_error_only:
  "aggregateUploadErrors errorText (first # others) =
     Some (errorText @ errorText @ first @ ''\<newline>'')"
  by simp

text \<open>
  C5. The upload step at an input where both upload units fail (live mode, a static site,
  the local archive cannot be opened and the site's temporary file cannot be created):
  the step returns one error, and its message holds the header twice and the message of
  the first failed unit only; the message of the second failed unit does not occur in
  it.
\<close>

theorem upload_step_reports_first_error_only:
  "fst (createUploadStep brokenDiskEnv ''/work/demo001''
          (newWorkflowContext False ''demo'' ''a demo'' [demoLambda] None (Some demoSite) ''bucket'' None)
          []) =
     Err (''Encountered multiple errors during upload:\<newline>'' @
          ''Encountered multiple errors during upload:\<newline>'' @
          ''Failed to open local archive for S3 upload: open /work/demo001: no such file or directory\<newline>'')
   \<and> \<not> Contains
         (''Encountered multiple errors during upload:\<newline>'' @
          ''Encountered multiple errors during upload:\<newline>'' @
          ''Failed to open local archive for S3 upload: open /work/demo001: no such file or directory\<newline>'')
         ''Failed to create temporary S3 site archive file''"
  by (simp add: createUploadStep_def newWorkflowContext_def brokenDiskEnv_def demoEnv_def
      demoSite_def primaryUpload_def siteUpload_def uploadLocalFileToS3_def
      ensureExpirationPolicy_def temporaryFile_def emit_def Let_def ExpirationStatusEnabled_def)

text \<open>
  C9. The per-file upload at an input where the bucket policy check fails (live mode, the
  lifecycle lookup answers AccessDenied): the operation returns the error after the
  lookup alone, and the local archive is neither closed nor removed. Where the upload
  itself fails, the deferred function does remove the file.
\<close>

theorem upload_keeps_file_when_policy_check_fails:
  "uploadLocalFileToS3 deniedEnv ''/work/demo001'' ''bucket'' False [] =
     (Inl ''Failed to ensure bucket policies: Failed to fetch S3 Bucket Policy: AccessDenied'',
      [S3GetBucketLifecycleConfiguration ''bucket''])
   \<and> OsRemove ''/work/demo001''
       \<notin> set (snd (uploadLocalFileToS3 deniedEnv ''/work/demo001'' ''bucket'' False []))
   \<and> uploadLocalFileToS3 uploadRefusedEnv ''/work/demo001'' ''bucket'' False [] =
     (Inl ''RequestTimeout'',
      [S3GetBucketLifecycleConfiguration ''bucket'', Log DebugLevel ''Bucket lifecycle configuration'',
       OsOpen ''/work/demo001'', Log InfoLevel ''Uploading local file to S3'',
       S3Upload ''bucket'' ''demo001'', FileClose ''/work/demo001'', OsRemove ''/work/demo001''])"
  by (simp add: uploadLocalFileToS3_def ensureExpirationPolicy_def deniedEnv_def
      uploadRefusedEnv_def demoEnv_def removeLocalFile_def emit_def Let_def
      ExpirationStatusEnabled_def)

section \<open>Properties of the role-resolution step\<close>

lemma loop_conflict:
  "RoleName l \<noteq> [] \<Longrightarrow> RoleDefinition l \<noteq> None \<Longrightarrow>
   verifyIAMRolesLoop env (l # ls) ctx w =
     (Err (''Both RoleName and RoleDefinition defined for lambda: '' @ lambdaFnName l), ctx, w)"
  by simp

lemma loop_name_known:
  "RoleName l \<noteq> [] \<Longrightarrow> RoleDefinition l = None \<Longrightarrow>
   map_of (lambdaIAMRoleNameMap ctx) (RoleName l) = Some a \<Longrightarrow>
   verifyIAMRolesLoop env (l # ls) ctx w = verifyIAMRolesLoop env ls ctx w"
  by simp

lemma loop_name_failed:
  "RoleName l \<noteq> [] \<Longrightarrow> RoleDefinition l = None \<Longrightarrow>
   map_of (lambdaIAMRoleNameMap ctx) (RoleName l) = None \<Longrightarrow>
   iamGetRole env (w @ [Log DebugLevel (''Checking IAM RoleName: '' @ RoleName l)]) (RoleName l) = Inl err \<Longrightarrow>
   verifyIAMRolesLoop env (l # ls) ctx w =
     (Err err, ctx,
      w @ [Log DebugLevel (''Checking IAM RoleName: '' @ RoleName l), IAMGetRole (RoleName l),
           Log ErrorLevel err])"
  by (simp add: Let_def emit_def)

lemma loop_name_resolved:
  "RoleName l \<noteq> [] \<Longrightarrow> RoleDefinition l = None \<Longrightarrow>
   map_of (lambdaIAMRoleNameMap ctx) (RoleName l) = None \<Longrightarrow>
   iamGetRole env (w @ [Log DebugLevel (''Checking IAM RoleName: '' @ RoleName l)]) (RoleName l) = Inr arn \<Longrightarrow>
   verifyIAMRolesLoop env (l # ls) ctx w =
     verifyIAMRolesLoop env ls
       (ctx\<lparr>lambdaIAMRoleNameMap :=
              AList.update (RoleName l) (StringLit arn) (lambdaIAMRoleNameMap ctx)\<rparr>)
       (w @ [Log DebugLevel (''Checking IAM RoleName: '' @ RoleName l), IAMGetRole (RoleName l)])"
  by (simp add: Let_def emit_def)

lemma loop_nil_definition:
  "RoleName l = [] \<Longrightarrow> RoleDefinition l = None \<Longrightarrow>
   verifyIAMRolesLoop env (l # ls) ctx w =
     (Panic ''nil pointer dereference: RoleDefinition'', ctx, w)"
  by simp

lemma loop_definition_known:
  "RoleName l = [] \<Longrightarrow> RoleDefinition l = Some rd \<Longrightarrow>
   map_of (lambdaIAMRoleNameMap ctx) (logicalName env rd) = Some a \<Longrightarrow>
   verifyIAMRolesLoop env (l # ls) ctx w = verifyIAMRolesLoop env ls ctx w"
  by (simp add: Let_def)

lemma loop_definition_added:
  "RoleName l = [] \<Longrightarrow> RoleDefinition l = Some rd \<Longrightarrow>
   map_of (lambdaIAMRoleNameMap ctx) (logicalName env rd) = None \<Longrightarrow>
   verifyIAMRolesLoop env (l # ls) ctx w =
     verifyIAMRolesLoop env ls
       (ctx\<lparr>cfTemplate :=
              AddResource (logicalName env rd) (toResource env rd (EventSourceMappings l))
                (cfTemplate ctx),
            lambdaIAMRoleNameMap :=
              AList.update (logicalName env rd) (GetAtt (logicalName env rd) ''Arn'')
                (lambdaIAMRoleNameMap ctx)\<rparr>)
       w"
  by (simp add: Let_def)


declare verifyIAMRolesLoop.simps(2) [simp del]

lemma count_lookup_events:
  "count_list [Log DebugLevel m, IAMGetRole n] (IAMGetRole name) = (if n = name then 1 else 0)"
  by simp

lemma extend_history:
  assumes "take (length (w @ xs)) w1 = w @ xs"
  shows "take (length w) w1 = w" and "drop (length w) w1 = xs @ drop (length (w @ xs)) w1"
proof -
  from assms have w1: "w1 = (w @ xs) @ drop (length (w @ xs)) w1"
    by (metis append_take_drop_id)
  then have "w1 = w @ (xs @ drop (length (w @ xs)) w1)" by simp
  then show "take (length w) w1 = w" and "drop (length w) w1 = xs @ drop (length (w @ xs)) w1"
    by (metis append_eq_conv_conj)+
qed

lemma verifyIAMRolesLoop_lookups:
  "verifyIAMRolesLoop env ls ctx w = (r, ctx1, w1) \<Longrightarrow>
     take (length w) w1 = w \<and>
     count_list (drop (length w) w1) (IAMGetRole name)
       \<le> (if map_of (lambdaIAMRoleNameMap ctx) name \<noteq> None then 0 else 1) \<and>
     (\<forall>n. map_of (lambdaIAMRoleNameMap ctx) n \<noteq> None \<longrightarrow>
            map_of (lambdaIAMRoleNameMap ctx1) n \<noteq> None)"
proof (induction ls arbitrary: ctx w)
  case Nil
  then show ?case by simp
next
  case (Cons l ls)
  consider
      (conflict) "RoleName l \<noteq> []" "RoleDefinition l \<noteq> None"
    | (named) "RoleName l \<noteq> []" "RoleDefinition l = None"
    | (unnamed) "RoleName l = []"
    by blast
  then show ?case
  proof cases
    case conflict
    with Cons.prems show ?thesis by (simp add: loop_conflict)
  next
    case named
    show ?thesis
    proof (cases "map_of (lambdaIAMRoleNameMap ctx) (RoleName l)")
      case (Some a)
      with named Cons.prems have "verifyIAMRolesLoop env ls ctx w = (r, ctx1, w1)"
        by (simp add: loop_name_known)
      from Cons.IH [OF this] show ?thesis .
    next
      case None
      let ?xs = "[Log DebugLevel (''Checking IAM RoleName: '' @ RoleName l), IAMGetRole (RoleName l)]"
      show ?thesis
      proof (cases "iamGetRole env (w @ [Log DebugLevel (''Checking IAM RoleName: '' @ RoleName l)])
                      (RoleName l)")
        case (Inl err)
        with None named Cons.prems
        have "w1 = w @ (?xs @ [Log ErrorLevel err])" "ctx1 = ctx"
          by (simp_all add: loop_name_failed)
        with None show ?thesis by auto
      next
        case (Inr arn)
        let ?ctx2 = "ctx\<lparr>lambdaIAMRoleNameMap :=
                        AList.update (RoleName l) (StringLit arn) (lambdaIAMRoleNameMap ctx)\<rparr>"
        from Inr None named Cons.prems
        have rec: "verifyIAMRolesLoop env ls ?ctx2 (w @ ?xs) = (r, ctx1, w1)"
          by (simp add: loop_name_resolved)
        from Cons.IH [OF rec]
        have pre: "take (length (w @ ?xs)) w1 = w @ ?xs"
          and cnt: "count_list (drop (length (w @ ?xs)) w1) (IAMGetRole name)
                      \<le> (if map_of (lambdaIAMRoleNameMap ?ctx2) name \<noteq> None then 0 else 1)"
          and mono: "\<forall>n. map_of (lambdaIAMRoleNameMap ?ctx2) n \<noteq> None \<longrightarrow>
                        map_of (lambdaIAMRoleNameMap ctx1) n \<noteq> None"
          by blast+
        note ext = extend_history [OF pre]
        have "count_list (drop (length w) w1) (IAMGetRole name) =
                (if RoleName l = name then 1 else 0) +
                count_list (drop (length (w @ ?xs)) w1) (IAMGetRole name)"
          by (simp only: ext(2) count_list_append count_lookup_events)
        with cnt None
        have "count_list (drop (length w) w1) (IAMGetRole name)
                \<le> (if map_of (lambdaIAMRoleNameMap ctx) name \<noteq> None then 0 else 1)"
          by (cases "RoleName l = name") (simp_all add: update_conv')
        moreover have "\<forall>n. map_of (lambdaIAMRoleNameMap ctx) n \<noteq> None \<longrightarrow>
                        map_of (lambdaIAMRoleNameMap ctx1) n \<noteq> None"
          using mono by (simp add: update_conv')
        ultimately show ?thesis using ext(1) by blast
      qed
    qed
  next
    case unnamed
    show ?thesis
    proof (cases "RoleDefinition l")
      case None
      with unnamed Cons.prems show ?thesis by (simp add: loop_nil_definition)
    next
      case (Some rd)
      show ?thesis
      proof (cases "map_of (lambdaIAMRoleNameMap ctx) (logicalName env rd)")
        case known: (Some a)
        with Some unnamed Cons.prems have "verifyIAMRolesLoop env ls ctx w = (r, ctx1, w1)"
          by (simp add: loop_definition_known)
        from Cons.IH [OF this] show ?thesis .
      next
        case None
        let ?ctx2 = "ctx\<lparr>cfTemplate :=
                         AddResource (logicalName env rd)
                           (toResource env rd (EventSourceMappings l)) (cfTemplate ctx),
                       lambdaIAMRoleNameMap :=
                         AList.update (logicalName env rd) (GetAtt (logicalName env rd) ''Arn'')
                           (lambdaIAMRoleNameMap ctx)\<rparr>"
        from None Some unnamed Cons.prems
        have rec: "verifyIAMRolesLoop env ls ?ctx2 w = (r, ctx1, w1)"
          by (simp add: loop_definition_added)
        from Cons.IH [OF rec]
        have pre: "take (length w) w1 = w"
          and cnt: "count_list (drop (length w) w1) (IAMGetRole name)
                      \<le> (if map_of (lambdaIAMRoleNameMap ?ctx2) name \<noteq> None then 0 else 1)"
          and mono: "\<forall>n. map_of (lambdaIAMRoleNameMap ?ctx2) n \<noteq> None \<longrightarrow>
                        map_of (lambdaIAMRoleNameMap ctx1) n \<noteq> None"
          by blast+
        from cnt have "count_list (drop (length w) w1) (IAMGetRole name)
                \<le> (if map_of (lambdaIAMRoleNameMap ctx) name \<noteq> None then 0 else 1)"
          by (simp add: update_conv' split: if_splits)
        moreover have "\<forall>n. map_of (lambdaIAMRoleNameMap ctx) n \<noteq> None \<longrightarrow>
                        map_of (lambdaIAMRoleNameMap ctx1) n \<noteq> None"
          using mono by (simp add: update_conv')
        ultimately show ?thesis using pre by blast
      qed
    qed
  qed
qed


lemma verifyIAMRolesLoop_recorded:
  "verifyIAMRolesLoop env ls ctx w = (Ok u, ctx1, w1) \<Longrightarrow> l \<in> set ls \<Longrightarrow>
     (RoleName l \<noteq> [] \<longrightarrow> map_of (lambdaIAMRoleNameMap ctx1) (RoleName l) \<noteq> None) \<and>
     (RoleName l = [] \<longrightarrow>
        (\<exists>rd. RoleDefinition l = Some rd \<and>
              map_of (lambdaIAMRoleNameMap ctx1) (logicalName env rd) \<noteq> None))"
proof (induction ls arbitrary: ctx w)
  case Nil
  then show ?case by simp
next
  case (Cons x ls)
  consider
      (conflict) "RoleName x \<noteq> []" "RoleDefinition x \<noteq> None"
    | (named) "RoleName x \<noteq> []" "RoleDefinition x = None"
    | (unnamed) "RoleName x = []"
    by blast
  then show ?case
  proof cases
    case conflict
    with Cons.prems show ?thesis by (simp add: loop_conflict)
  next
    case named
    show ?thesis
    proof (cases "map_of (lambdaIAMRoleNameMap ctx) (RoleName x)")
      case (Some a)
      with named Cons.prems have rec: "verifyIAMRolesLoop env ls ctx w = (Ok u, ctx1, w1)"
        by (simp add: loop_name_known)
      from verifyIAMRolesLoop_lookups [OF rec] Some
      have "map_of (lambdaIAMRoleNameMap ctx1) (RoleName x) \<noteq> None" by simp
      with Cons.IH [OF rec] Cons.prems(2) named show ?thesis by auto
    next
      case None
      show ?thesis
      proof (cases "iamGetRole env (w @ [Log DebugLevel (''Checking IAM RoleName: '' @ RoleName x)])
                      (RoleName x)")
        case (Inl err)
        with None named Cons.prems show ?thesis by (simp add: loop_name_failed)
      next
        case (Inr arn)
        let ?ctx2 = "ctx\<lparr>lambdaIAMRoleNameMap :=
                        AList.update (RoleName x) (StringLit arn) (lambdaIAMRoleNameMap ctx)\<rparr>"
        from Inr None named Cons.prems
        have rec: "verifyIAMRolesLoop env ls ?ctx2
                     (w @ [Log DebugLevel (''Checking IAM RoleName: '' @ RoleName x),
                           IAMGetRole (RoleName x)]) = (Ok u, ctx1, w1)"
          by (simp add: loop_name_resolved)
        from verifyIAMRolesLoop_lookups [OF rec]
        have "map_of (lambdaIAMRoleNameMap ctx1) (RoleName x) \<noteq> None"
          by (simp add: update_conv')
        with Cons.IH [OF rec] Cons.prems(2) named show ?thesis by auto
      qed
    qed
  next
    case unnamed
    show ?thesis
    proof (cases "RoleDefinition x")
      case None
      with unnamed Cons.prems show ?thesis by (simp add: loop_nil_definition)
    next
      case (Some rd)
      show ?thesis
      proof (cases "map_of (lambdaIAMRoleNameMap ctx) (logicalName env rd)")
        case known: (Some a)
        with Some unnamed Cons.prems have rec: "verifyIAMRolesLoop env ls ctx w = (Ok u, ctx1, w1)"
          by (simp add: loop_definition_known)
        from verifyIAMRolesLoop_lookups [OF rec] known
        have "map_of (lambdaIAMRoleNameMap ctx1) (logicalName env rd) \<noteq> None" by simp
        with Cons.IH [OF rec] Cons.prems(2) unnamed Some show ?thesis by auto
      next
        case None
        let ?ctx2 = "ctx\<lparr>cfTemplate :=
                         AddResource (logicalName env rd)
                           (toResource env rd (EventSourceMappings x)) (cfTemplate ctx),
                       lambdaIAMRoleNameMap :=
                         AList.update (logicalName env rd) (GetAtt (logicalName env rd) ''Arn'')
                           (lambdaIAMRoleNameMap ctx)\<rparr>"
        from None Some unnamed Cons.prems
        have rec: "verifyIAMRolesLoop env ls ?ctx2 w = (Ok u, ctx1, w1)"
          by (simp add: loop_definition_added)
        from verifyIAMRolesLoop_lookups [OF rec]
        have "map_of (lambdaIAMRoleNameMap ctx1) (logicalName env rd) \<noteq> None"
          by (simp add: update_conv')
        with Cons.IH [OF rec] Cons.prems(2) unnamed Some show ?thesis by auto
      qed
    qed
  qed
qed

lemma verifyIAMRoles_cases:
  "verifyIAMRolesLoop env (lambdaAWSInfos ctx) (ctx\<lparr>lambdaIAMRoleNameMap := []\<rparr>)
      (w @ [Log InfoLevel ''Verifying IAM Lambda execution roles'']) = (r, ctx1, w1) \<Longrightarrow>
   verifyIAMRoles env ctx w =
     (case r of
        Ok u \<Rightarrow> (Ok (Some PackageStep), ctx1, w1 @ [Log InfoLevel ''IAM roles verified''])
      | Err err \<Rightarrow> (Err err, ctx1, w1)
      | Panic p \<Rightarrow> (Panic p, ctx1, w1))"
  by (simp add: verifyIAMRoles_def emit_def Let_def split: result.splits)

text \<open>
  C7. In the role-resolution step, for every role name, the history the step adds holds
  at most one \<open>IAMGetRole\<close> call for that name, however many function descriptors
  share it; and when the step advances (to the package step), the name of every
  descriptor that names a pre-existing role is a key of the role map.
\<close>

theorem role_lookup_at_most_once:
  "take (length w) (snd (snd (verifyIAMRoles env ctx w))) = w \<and>
   count_list (drop (length w) (snd (snd (verifyIAMRoles env ctx w)))) (IAMGetRole name) \<le> 1 \<and>
   (fst (verifyIAMRoles env ctx w) = Ok next \<longrightarrow>
      next = Some PackageStep \<and>
      (\<forall>l \<in> set (lambdaAWSInfos ctx).
         RoleName l \<noteq> [] \<longrightarrow>
         map_of (lambdaIAMRoleNameMap (fst (snd (verifyIAMRoles env ctx w)))) (RoleName l) \<noteq> None))"
proof -
  let ?init = "[Log InfoLevel ''Verifying IAM Lambda execution roles'']"
  obtain r ctx1 w1 where
    loop: "verifyIAMRolesLoop env (lambdaAWSInfos ctx) (ctx\<lparr>lambdaIAMRoleNameMap := []\<rparr>)
             (w @ ?init) = (r, ctx1, w1)"
    by (metis prod_cases3)
  note step = verifyIAMRoles_cases [OF loop]
  from verifyIAMRolesLoop_lookups [OF loop, of name]
  have pre: "take (length (w @ ?init)) w1 = w @ ?init"
    and cnt: "count_list (drop (length (w @ ?init)) w1) (IAMGetRole name) \<le> 1"
    by simp_all
  note ext = extend_history [OF pre]
  have cnt1: "count_list (drop (length w) w1) (IAMGetRole name) \<le> 1"
    using cnt by (simp only: ext(2) count_list_append) simp
  have "w1 = w @ drop (length w) w1"
    using ext(1) append_take_drop_id [of "length w" w1] by simp
  then have len: "length w \<le> length w1"
    by (metis le_add1 length_append)
  show ?thesis
  proof (cases r)
    case (Ok u)
    with step have res: "verifyIAMRoles env ctx w =
        (Ok (Some PackageStep), ctx1, w1 @ [Log InfoLevel ''IAM roles verified''])"
      by simp
    have "\<forall>l \<in> set (lambdaAWSInfos ctx). RoleName l \<noteq> [] \<longrightarrow>
            map_of (lambdaIAMRoleNameMap ctx1) (RoleName l) \<noteq> None"
      using verifyIAMRolesLoop_recorded [OF loop [unfolded Ok]] by blast
    with res cnt1 len ext(1) show ?thesis by simp
  next
    case (Err err)
    with step have "verifyIAMRoles env ctx w = (Err err, ctx1, w1)" by simp
    with cnt1 ext(1) show ?thesis by simp
  next
    case (Panic p)
    with step have "verifyIAMRoles env ctx w = (Panic p, ctx1, w1)" by simp
    with cnt1 ext(1) show ?thesis by simp
  qed
qed

theorem role_lookup_at_most_once_witness:
  "snd (snd (verifyIAMRoles demoEnv
        (newWorkflowContext False ''demo'' ''a demo'' [firstExecLambda, secondExecLambda]
           None None ''bucket'' None) [])) =
     [Log InfoLevel ''Verifying IAM Lambda execution roles'',
      Log DebugLevel ''Checking IAM RoleName: exec'',
      IAMGetRole ''exec'',
      Log InfoLevel ''IAM roles verified'']
   \<and> count_list (snd (snd (verifyIAMRoles demoEnv
        (newWorkflowContext False ''demo'' ''a demo'' [firstExecLambda, secondExecLambda]
           None None ''bucket'' None) []))) (IAMGetRole ''exec'') = 1
   \<and> fst (verifyIAMRoles demoEnv
        (newWorkflowContext False ''demo'' ''a demo'' [firstExecLambda, secondExecLambda]
           None None ''bucket'' None) []) = Ok (Some PackageStep)
   \<and> map_of (lambdaIAMRoleNameMap (fst (snd (verifyIAMRoles demoEnv
        (newWorkflowContext False ''demo'' ''a demo'' [firstExecLambda, secondExecLambda]
           None None ''bucket'' None) [])))) ''exec'' = Some (StringLit ''arn:aws:iam::role/exec'')"
  using role_lookup_at_most_once [of "[]" demoEnv
      "newWorkflowContext False ''demo'' ''a demo'' [firstExecLambda, secondExecLambda]
           None None ''bucket'' None" "''exec''" "Some PackageStep"]
  by (simp add: verifyIAMRoles_def verifyIAMRolesLoop.simps(2) newWorkflowContext_def demoEnv_def
      firstExecLambda_def secondExecLambda_def emit_def Let_def)

lemma verifyIAMRolesLoop_prefix:
  "verifyIAMRolesLoop env pre ctx w = (Ok u, ctx1, w1) \<Longrightarrow>
   verifyIAMRolesLoop env (pre @ rest) ctx w = verifyIAMRolesLoop env rest ctx1 w1"
proof (induction pre arbitrary: ctx w)
  case Nil
  then show ?case by simp
next
  case (Cons x pre)
  from Cons.prems show ?case
    by (auto simp add: verifyIAMRolesLoop.simps(2) Let_def Cons.IH
        split: if_splits option.splits sum.splits)
qed

lemma verifyIAMRolesLoop_rollbackFunctions:
  "verifyIAMRolesLoop env ls ctx w = (r, ctx1, w1) \<Longrightarrow>
   rollbackFunctions ctx1 = rollbackFunctions ctx"
proof (induction ls arbitrary: ctx w)
  case Nil
  then show ?case by simp
next
  case (Cons x ls)
  from Cons.prems show ?case
    by (simp add: verifyIAMRolesLoop.simps(2) Let_def
        split: if_splits option.splits sum.splits) (auto dest: Cons.IH)
qed

section \<open>Properties of the workflow engine\<close>

lemma workflowLoop_error:
  "runStep env step ctx w = Some (Err err, ctx1, w1) \<Longrightarrow>
   workflowLoop env step ctx w = Some (Err err, ctx1, rollback env ctx1 w1)"
  by (subst workflowLoop.simps) simp

lemma workflowLoop_next:
  "runStep env step ctx w = Some (Ok (Some next), ctx1, w1) \<Longrightarrow>
   workflowLoop env step ctx w = workflowLoop env next ctx1 w1"
  by (subst workflowLoop.simps) simp



lemma workflowLoop_diverges:
  "runStep env step ctx w = None \<Longrightarrow> workflowLoop env step ctx w = None"
  by (subst workflowLoop.simps) simp

text \<open>
  C6 (as amended). In the role-resolution step, the first function descriptor that
  specifies both a pre-existing-role name and a role definition, reached after the
  descriptors before it were resolved without error, makes the step return the error
  "Both RoleName and RoleDefinition defined for lambda: ...", and Provision returns that
  error. The context and the history the step returns are those the loop had reached
  after the descriptors before the conflicting one: the template and the role map hold
  what these descriptors added and nothing for the conflicting descriptor or a later
  one, and no role is looked up for them. The history of the run ends with the rollback
  log line.
\<close>

theorem conflicting_role_aborts_run:
  assumes "RoleName bad \<noteq> []" and "RoleDefinition bad \<noteq> None"
    and "verifyIAMRolesLoop env pre
           (newWorkflowContext noopFlag name description (pre @ bad # post) gateway site bucket writer)
           (w @ [Log InfoLevel ''Verifying IAM Lambda execution roles'']) = (Ok (), ctx1, w1)"
  shows "verifyIAMRoles env
           (newWorkflowContext noopFlag name description (pre @ bad # post) gateway site bucket writer) w =
           (Err (''Both RoleName and RoleDefinition defined for lambda: '' @ lambdaFnName bad), ctx1, w1) \<and>
         Provision env noopFlag name description (pre @ bad # post) gateway site bucket writer w =
           Some (Err (''Both RoleName and RoleDefinition defined for lambda: '' @ lambdaFnName bad),
                 w1 @ [Log InfoLevel ''Invoking rollback functions''])"
proof -
  let ?ctx = "newWorkflowContext noopFlag name description (pre @ bad # post) gateway site bucket writer"
  let ?err = "''Both RoleName and RoleDefinition defined for lambda: '' @ lambdaFnName bad"
  have reset: "?ctx\<lparr>lambdaIAMRoleNameMap := []\<rparr> = ?ctx"
    by (simp add: newWorkflowContext_def)
  have infos: "lambdaAWSInfos ?ctx = pre @ bad # post"
    by (simp add: newWorkflowContext_def)
  have "verifyIAMRolesLoop env (pre @ bad # post) ?ctx
          (w @ [Log InfoLevel ''Verifying IAM Lambda execution roles'']) =
        verifyIAMRolesLoop env (bad # post) ctx1 w1"
    using assms(3) by (rule verifyIAMRolesLoop_prefix)
  also have "\<dots> = (Err ?err, ctx1, w1)"
    using assms(1,2) by (rule loop_conflict)
  finally have step: "verifyIAMRoles env ?ctx w = (Err ?err, ctx1, w1)"
    using verifyIAMRoles_cases [of env ?ctx w "Err ?err" ctx1 w1] by (simp add: reset infos)
  then have "workflowLoop env VerifyIAMRoles ?ctx w = Some (Err ?err, ctx1, rollback env ctx1 w1)"
    by (intro workflowLoop_error) simp
  moreover have "rollbackFunctions ctx1 = []"
    using verifyIAMRolesLoop_rollbackFunctions [OF assms(3)] by (simp add: newWorkflowContext_def)
  ultimately have "Provision env noopFlag name description (pre @ bad # post) gateway site bucket writer w =
           Some (Err ?err, w1 @ [Log InfoLevel ''Invoking rollback functions''])"
    by (simp add: Provision_def rollback_def emit_def)
  with step show ?thesis by (rule conjI)
qed

theorem conflicting_role_aborts_run_witness:
  "verifyIAMRoles demoEnv
      (newWorkflowContext False ''demo'' ''a demo'' [firstExecLambda, conflictingLambda, demoLambda]
         None None ''bucket'' None) [] =
     (Err ''Both RoleName and RoleDefinition defined for lambda: broken'',
      (newWorkflowContext False ''demo'' ''a demo'' [firstExecLambda, conflictingLambda, demoLambda]
         None None ''bucket'' None)
        \<lparr>lambdaIAMRoleNameMap := [(''exec'', StringLit ''arn:aws:iam::role/exec'')]\<rparr>,
      [Log InfoLevel ''Verifying IAM Lambda execution roles'',
       Log DebugLevel ''Checking IAM RoleName: exec'',
       IAMGetRole ''exec''])
   \<and> Resources (cfTemplate
         (newWorkflowContext False ''demo'' ''a demo'' [firstExecLambda, conflictingLambda, demoLambda]
            None None ''bucket'' None)) = []
   \<and> Provision demoEnv False ''demo'' ''a demo'' [firstExecLambda, conflictingLambda, demoLambda]
      None None ''bucket'' None [] =
     Some (Err ''Both RoleName and RoleDefinition defined for lambda: broken'',
           [Log InfoLevel ''Verifying IAM Lambda execution roles'',
            Log DebugLevel ''Checking IAM RoleName: exec'',
            IAMGetRole ''exec'',
            Log InfoLevel ''Invoking rollback functions''])
   \<and> verifyIAMRoles demoEnv
      (newWorkflowContext False ''demo'' ''a demo'' [conflictingLambda, firstExecLambda]
         None None ''bucket'' None) [] =
     (Err ''Both RoleName and RoleDefinition defined for lambda: broken'',
      newWorkflowContext False ''demo'' ''a demo'' [conflictingLambda, firstExecLambda]
         None None ''bucket'' None,
      [Log InfoLevel ''Verifying IAM Lambda execution roles''])
   \<and> Provision demoEnv False ''demo'' ''a demo'' [conflictingLambda, firstExecLambda]
      None None ''bucket'' None [] =
     Some (Err ''Both RoleName and RoleDefinition defined for lambda: broken'',
           [Log InfoLevel ''Verifying IAM Lambda execution roles'',
            Log InfoLevel ''Invoking rollback functions''])"
  using
    conflicting_role_aborts_run [of conflictingLambda demoEnv "[firstExecLambda]" False "''demo''"
      "''a demo''" "[demoLambda]" None None "''bucket''" None "[]"]
    conflicting_role_aborts_run [of conflictingLambda demoEnv "[]" False "''demo''"
      "''a demo''" "[firstExecLambda]" None None "''bucket''" None "[]"]
  by (simp add: verifyIAMRolesLoop.simps(2) newWorkflowContext_def demoEnv_def
      firstExecLambda_def conflictingLambda_def emit_def Let_def NewTemplate_def)

text \<open>
  The claim as stated fails: with a conflicting descriptor in third place, the step
  returns the error after the role of the first descriptor was looked up and the role
  resource of the second was added to the template.
\<close>

theorem conflicting_role_partial_effect:
  "fst (verifyIAMRoles demoEnv
         (newWorkflowContext False ''demo'' ''a demo'' [firstExecLambda, demoLambda, conflictingLambda]
            None None ''bucket'' None) []) =
     Err ''Both RoleName and RoleDefinition defined for lambda: broken''
   \<and> IAMGetRole ''exec'' \<in> set (snd (snd (verifyIAMRoles demoEnv
         (newWorkflowContext False ''demo'' ''a demo'' [firstExecLambda, demoLambda, conflictingLambda]
            None None ''bucket'' None) [])))
   \<and> map fst (Resources (cfTemplate (fst (snd (verifyIAMRoles demoEnv
         (newWorkflowContext False ''demo'' ''a demo'' [firstExecLambda, demoLambda, conflictingLambda]
            None None ''bucket'' None) []))))) = [''IAMRoles3:GetObject'']"
  by (simp add: verifyIAMRoles_def verifyIAMRolesLoop.simps(2) newWorkflowContext_def demoEnv_def
      firstExecLambda_def conflictingLambda_def demoLambda_def emit_def Let_def AddResource_def
      NewTemplate_def)

lemma callRollbackFunction_events:
  "\<exists>xs. snd (callRollbackFunction env f w) = w @ xs \<and> rollbackCall f \<in> set xs \<and>
        length (filter isRollbackCall xs) = 1"
proof (cases f)
  case (S3RollbackFunc bucket s3Key noopFlag)
  show ?thesis
  proof (cases noopFlag)
    case True
    with S3RollbackFunc show ?thesis by (simp add: emit_def)
  next
    case False
    with S3RollbackFunc show ?thesis
      by (cases "s3DeleteObject env
                   (emit (Log InfoLevel (''Attempting to cleanup S3 item: '' @ s3Key)) w) bucket s3Key")
         (simp_all add: emit_def Let_def)
  qed
qed

lemma runCleanups_events:
  "\<exists>xs. runCleanups env fs w = w @ xs \<and> (\<forall>f \<in> set fs. rollbackCall f \<in> set xs) \<and>
        length (filter isRollbackCall xs) = length fs"
proof (induction fs arbitrary: w)
  case Nil
  then show ?case by simp
next
  case (Cons f fs)
  obtain e w1 where call: "callRollbackFunction env f w = (e, w1)" by (cases "callRollbackFunction env f w")
  from callRollbackFunction_events [of env f w] call
  obtain xs where xs: "w1 = w @ xs" "rollbackCall f \<in> set xs" "length (filter isRollbackCall xs) = 1"
    by auto
  define w2 where "w2 = (case e of Some err \<Rightarrow> w1 @ [Log WarnLevel ''Failed to cleanup resource''] | None \<Rightarrow> w1)"
  have step: "runCleanups env (f # fs) w = runCleanups env fs w2"
    using call by (simp add: w2_def emit_def split: option.splits)
  obtain ys where ys: "w2 = w @ ys" "rollbackCall f \<in> set ys" "length (filter isRollbackCall ys) = 1"
    using xs by (cases e) (auto simp: w2_def)
  from Cons.IH [of w2]
  obtain zs where zs: "runCleanups env fs w2 = w2 @ zs" "\<forall>g \<in> set fs. rollbackCall g \<in> set zs"
      "length (filter isRollbackCall zs) = length fs"
    by blast
  have "runCleanups env (f # fs) w = w @ (ys @ zs)" using step zs(1) ys(1) by simp
  moreover have "\<forall>g \<in> set (f # fs). rollbackCall g \<in> set (ys @ zs)" using ys(2) zs(2) by auto
  moreover have "length (filter isRollbackCall (ys @ zs)) = length (f # fs)" using ys(3) zs(3) by simp
  ultimately show ?case by blast
qed

lemma rollback_events:
  "\<exists>xs. rollback env ctx w = w @ xs \<and>
        (\<forall>f \<in> set (rollbackFunctions ctx). rollbackCall f \<in> set xs) \<and>
        length (filter isRollbackCall xs) = length (rollbackFunctions ctx)"
proof -
  let ?w1 = "w @ [Log InfoLevel ''Invoking rollback functions'']"
  from runCleanups_events [of env "rollbackFunctions ctx" ?w1]
  obtain xs where xs: "runCleanups env (rollbackFunctions ctx) ?w1 = ?w1 @ xs"
      "\<forall>f \<in> set (rollbackFunctions ctx). rollbackCall f \<in> set xs"
      "length (filter isRollbackCall xs) = length (rollbackFunctions ctx)"
    by blast
  have "rollback env ctx w = w @ (Log InfoLevel ''Invoking rollback functions'' # xs)"
    using xs(1) by (simp add: rollback_def emit_def)
  moreover have "\<forall>f \<in> set (rollbackFunctions ctx).
      rollbackCall f \<in> set (Log InfoLevel ''Invoking rollback functions'' # xs)"
    using xs(2) by simp
  moreover have "length (filter isRollbackCall (Log InfoLevel ''Invoking rollback functions'' # xs))
      = length (rollbackFunctions ctx)"
    using xs(3) by simp
  ultimately show ?thesis by blast
qed

lemma workflowLoop_advances:
  "(advances env)\<^sup>*\<^sup>* a b \<Longrightarrow>
   workflowLoop env (fst a) (fst (snd a)) (snd (snd a)) =
   workflowLoop env (fst b) (fst (snd b)) (snd (snd b))"
proof (induction rule: rtranclp_induct)
  case base
  show ?case by simp
next
  case (step b c)
  from step.hyps(2) have "workflowLoop env (fst b) (fst (snd b)) (snd (snd b)) =
      workflowLoop env (fst c) (fst (snd c)) (snd (snd c))"
    unfolding advances_def by (intro workflowLoop_next) simp
  with step.IH show ?case by simp
qed

text \<open>
  C2. For every run of Provision on a non-empty descriptor list: when a step that the
  engine loop reaches from \<open>verifyIAMRoles\<close> returns a non-nil error, Provision returns
  that same error, and the history at the return is the history the failing step left,
  extended by the rollback alone (no further step is run): every rollback function
  registered in the context is called (its delete request, or the bypass line of a
  function built in no-op mode, is among the added events), and there are as many calls
  as registered functions.
\<close>

theorem failing_step_rolls_back:
  assumes "lambdas \<noteq> []"
    and "(advances env)\<^sup>*\<^sup>*
           (VerifyIAMRoles,
            newWorkflowContext noopFlag name description lambdas gateway site bucket writer, w)
           (step, ctx, w0)"
    and "runStep env step ctx w0 = Some (Err err, ctx1, w1)"
  shows "Provision env noopFlag name description lambdas gateway site bucket writer w =
           Some (Err err, rollback env ctx1 w1) \<and>
         take (length w1) (rollback env ctx1 w1) = w1 \<and>
         (\<forall>f \<in> set (rollbackFunctions ctx1).
            rollbackCall f \<in> set (drop (length w1) (rollback env ctx1 w1))) \<and>
         length (filter isRollbackCall (drop (length w1) (rollback env ctx1 w1))) =
           length (rollbackFunctions ctx1)"
proof -
  let ?ctx = "newWorkflowContext noopFlag name description lambdas gateway site bucket writer"
  from workflowLoop_advances [OF assms(2)]
  have "workflowLoop env VerifyIAMRoles ?ctx w = workflowLoop env step ctx w0" by simp
  also have "\<dots> = Some (Err err, ctx1, rollback env ctx1 w1)"
    using assms(3) by (rule workflowLoop_error)
  finally have "Provision env noopFlag name description lambdas gateway site bucket writer w =
      Some (Err err, rollback env ctx1 w1)"
    using assms(1) by (simp add: Provision_def)
  moreover from rollback_events [of env ctx1 w1]
  obtain xs where "rollback env ctx1 w1 = w1 @ xs"
      "\<forall>f \<in> set (rollbackFunctions ctx1). rollbackCall f \<in> set xs"
      "length (filter isRollbackCall xs) = length (rollbackFunctions ctx1)"
    by blast
  ultimately show ?thesis by simp
qed

lemma createPackageStep_context:
  "fst (snd (createPackageStep env ctx w)) = ctx"
  by (simp add: createPackageStep_def Let_def split: option.splits prod.splits)

lemmas demo_defs =
  verifyIAMRoles_def verifyIAMRolesLoop.simps(2) newWorkflowContext_def demoEnv_def
  demoLambda_def emit_def Let_def AddResource_def NewTemplate_def
  createPackageStep_def packageBinary_def packageArchive_def packageArchiveContents_def
  temporaryFile_def customResourceScripts_def provisioningResourcesRelPath_def
  createNewNodeJSProxyEntry_def
  createUploadStep_def primaryUpload_def uploadLocalFileToS3_def ensureExpirationPolicy_def
  removeLocalFile_def registerRollback_def createS3RollbackFunc_def ExpirationStatusEnabled_def
  ensureCloudFormationStack_def synthesizeTemplate_def

theorem failing_step_rolls_back_witness:
  "\<exists>w. Provision exportFailsEnv False ''demo'' ''a demo'' [demoLambda] None None ''bucket'' None [] =
          Some (Err ''export failed'', w) \<and>
        S3Upload ''bucket'' ''demo001'' \<in> set w \<and>
        S3DeleteObject ''bucket'' ''demo001'' \<in> set w"
proof -
  let ?env = exportFailsEnv
  let ?c0 = "newWorkflowContext False ''demo'' ''a demo'' [demoLambda] None None ''bucket'' None"
  define c1 where "c1 = fst (snd (verifyIAMRoles ?env ?c0 []))"
  define h1 where "h1 = snd (snd (verifyIAMRoles ?env ?c0 []))"
  define h2 where "h2 = snd (snd (createPackageStep ?env c1 h1))"
  define c3 where "c3 = fst (snd (createUploadStep ?env ''/work/demo001'' c1 h2))"
  define h3 where "h3 = snd (snd (createUploadStep ?env ''/work/demo001'' c1 h2))"
  have v1: "verifyIAMRoles ?env ?c0 [] = (Ok (Some PackageStep), c1, h1)"
    unfolding c1_def h1_def by (simp add: demo_defs exportFailsEnv_def)
  have "fst (createPackageStep ?env c1 h1) = Ok (Some (UploadStep ''/work/demo001''))"
    unfolding c1_def by (simp add: demo_defs exportFailsEnv_def)
  then have v2: "createPackageStep ?env c1 h1 = (Ok (Some (UploadStep ''/work/demo001'')), c1, h2)"
    unfolding h2_def using createPackageStep_context [of ?env c1 h1]
    by (metis prod.collapse)
  have v3: "createUploadStep ?env ''/work/demo001'' c1 h2 = (Ok (Some EnsureCloudFormationStack), c3, h3)"
    unfolding c3_def h3_def c1_def by (simp add: demo_defs exportFailsEnv_def)
  have fns: "rollbackFunctions c3 = [S3RollbackFunc ''bucket'' ''demo001'' False]"
    unfolding c3_def c1_def by (simp add: demo_defs exportFailsEnv_def)
  have up: "S3Upload ''bucket'' ''demo001'' \<in> set h3"
    unfolding h3_def c1_def by (simp add: demo_defs exportFailsEnv_def)
  have fail: "runStep ?env EnsureCloudFormationStack c3 h3 = Some (Err ''export failed'', c3, h3)"
    unfolding c3_def c1_def by (simp add: demo_defs exportFailsEnv_def)
  have nonempty: "[demoLambda] \<noteq> []" by simp
  have a1: "advances ?env (VerifyIAMRoles, ?c0, []) (PackageStep, c1, h1)"
    using v1 by (simp add: advances_def)
  have a2: "advances ?env (PackageStep, c1, h1) (UploadStep ''/work/demo001'', c1, h2)"
    using v2 by (simp add: advances_def)
  have a3: "advances ?env (UploadStep ''/work/demo001'', c1, h2) (EnsureCloudFormationStack, c3, h3)"
    using v3 by (simp add: advances_def)
  have reach: "(advances ?env)\<^sup>*\<^sup>* (VerifyIAMRoles, ?c0, []) (EnsureCloudFormationStack, c3, h3)"
    using a1 a2 a3 by (simp add: rtranclp.intros)
  from failing_step_rolls_back [OF nonempty reach fail]
  have run: "Provision ?env False ''demo'' ''a demo'' [demoLambda] None None ''bucket'' None [] =
               Some (Err ''export failed'', rollback ?env c3 h3)"
    and pre: "take (length h3) (rollback ?env c3 h3) = h3"
    and calls: "\<forall>f \<in> set (rollbackFunctions c3).
        rollbackCall f \<in> set (drop (length h3) (rollback ?env c3 h3))"
    by blast+
  from calls fns
  have "S3DeleteObject ''bucket'' ''demo001'' \<in> set (drop (length h3) (rollback ?env c3 h3))"
    by simp
  then have del: "S3DeleteObject ''bucket'' ''demo001'' \<in> set (rollback ?env c3 h3)"
    by (rule in_set_dropD)
  from up pre have "S3Upload ''bucket'' ''demo001'' \<in> set (rollback ?env c3 h3)"
    by (metis in_set_takeD)
  with run del show ?thesis by blast
qed

section \<open>Steps that never issue the calls a no-op run leaves out\<close>


lemma quiet_append:
  "quiet w0 w \<Longrightarrow> filter skippedInNoop xs = [] \<Longrightarrow> quiet w0 (w @ xs)"
proof -
  assume q: "quiet w0 w" and xs: "filter skippedInNoop xs = []"
  from q have "w = w0 @ drop (length w0) w"
    unfolding quiet_def by (metis append_take_drop_id)
  then obtain ys where ys: "w = w0 @ ys" ..
  with q have "filter skippedInNoop ys = []" by (simp add: quiet_def)
  with xs ys show ?thesis by (simp add: quiet_def)
qed

lemma quiet_emit: "quiet w0 w \<Longrightarrow> \<not> skippedInNoop e \<Longrightarrow> quiet w0 (emit e w)"
  unfolding emit_def by (rule quiet_append) simp_all


lemma temporaryFile_quiet: "quiet w0 w \<Longrightarrow> quiet w0 (snd (temporaryFile env name w))"
  by (auto simp: temporaryFile_def Let_def intro!: quiet_emit split: sum.splits)

lemma addToZip_quiet: "quiet w0 w \<Longrightarrow> quiet w0 (snd (addToZip env z src root w))"
  by (auto simp: addToZip_def Let_def intro!: quiet_emit split: sum.splits)

lemma removeLocalFile_quiet: "quiet w0 w \<Longrightarrow> quiet w0 (removeLocalFile env path w)"
  by (auto simp: removeLocalFile_def Let_def intro!: quiet_emit split: option.splits)

lemma ensureExpirationPolicy_noop_quiet:
  "quiet w0 w \<Longrightarrow> quiet w0 (snd (ensureExpirationPolicy env bucket True w))"
  by (auto simp: ensureExpirationPolicy_def intro!: quiet_emit)

lemma uploadLocalFileToS3_noop_quiet:
  "quiet w0 w \<Longrightarrow> quiet w0 (snd (uploadLocalFileToS3 env path bucket True w))"
  by (auto simp: uploadLocalFileToS3_def ensureExpirationPolicy_def Let_def
      intro!: quiet_emit removeLocalFile_quiet split: option.splits)











lemma primaryUpload_noop_quiet:
  "noop ctx \<Longrightarrow> quiet w0 w \<Longrightarrow> quiet w0 (snd (snd (primaryUpload env path ctx errs w)))"
  using uploadLocalFileToS3_noop_quiet [of w0 w env path "s3Bucket ctx"]
  by (auto simp: primaryUpload_def Let_def split_beta split: sum.splits)

lemma siteUpload_noop_quiet:
  "noop ctx \<Longrightarrow> quiet w0 w \<Longrightarrow> quiet w0 (snd (snd (siteUpload env site ctx errs w)))"
  by (auto simp: siteUpload_def Let_def split_beta
      intro!: quiet_emit uploadLocalFileToS3_noop_quiet addToZip_quiet temporaryFile_quiet
      split: sum.splits option.splits)

section \<open>What the steps leave of the context\<close>

lemma other_panics:
  "''nil pointer dereference: RoleDefinition'' \<noteq> nilSiteContext"
  "''_escFSMustString: '' @ resourceName \<noteq> nilSiteContext"
  "''_escFSMustString: /resources/index.js'' \<noteq> nilSiteContext"
  by (simp_all add: nilSiteContext_def)

lemma verifyIAMRolesLoop_frame:
  "noop (fst (snd (verifyIAMRolesLoop env ls ctx w))) = noop ctx \<and>
   s3SiteContext (fst (snd (verifyIAMRolesLoop env ls ctx w))) = s3SiteContext ctx \<and>
   templateWriter (fst (snd (verifyIAMRolesLoop env ls ctx w))) = templateWriter ctx \<and>
   fst (verifyIAMRolesLoop env ls ctx w) \<noteq> Panic nilSiteContext"
proof (induction ls arbitrary: ctx w)
  case Nil
  then show ?case by simp
next
  case (Cons x ls)
  show ?case
    by (simp add: verifyIAMRolesLoop.simps(2) Let_def other_panics Cons.IH
        split: option.splits sum.splits)
qed

lemma verifyIAMRoles_frame:
  assumes "verifyIAMRoles env ctx w = (r, ctx1, w1)"
  shows "noop ctx1 = noop ctx" and "s3SiteContext ctx1 = s3SiteContext ctx"
    and "templateWriter ctx1 = templateWriter ctx"
    and "rollbackFunctions ctx1 = rollbackFunctions ctx"
    and "r \<noteq> Panic nilSiteContext"
    and "r = Ok next \<Longrightarrow> next = Some PackageStep"
proof -
  obtain r' c' w' where
    loop: "verifyIAMRolesLoop env (lambdaAWSInfos ctx) (ctx\<lparr>lambdaIAMRoleNameMap := []\<rparr>)
             (w @ [Log InfoLevel ''Verifying IAM Lambda execution roles'']) = (r', c', w')"
    by (metis prod_cases3)
  note fr = verifyIAMRolesLoop_frame [of env "lambdaAWSInfos ctx" "ctx\<lparr>lambdaIAMRoleNameMap := []\<rparr>"
      "w @ [Log InfoLevel ''Verifying IAM Lambda execution roles'']", unfolded loop, simplified]
    verifyIAMRolesLoop_rollbackFunctions [OF loop]
  from verifyIAMRoles_cases [OF loop] assms
  have res: "(r, ctx1, w1) =
     (case r' of
        Ok u \<Rightarrow> (Ok (Some PackageStep), c', w' @ [Log InfoLevel ''IAM roles verified''])
      | Err err \<Rightarrow> (Err err, c', w')
      | Panic p \<Rightarrow> (Panic p, c', w'))"
    by simp
  from res fr show "noop ctx1 = noop ctx" by (cases r') auto
  from res fr show "s3SiteContext ctx1 = s3SiteContext ctx" by (cases r') auto
  from res fr show "templateWriter ctx1 = templateWriter ctx" by (cases r') auto
  from res fr show "rollbackFunctions ctx1 = rollbackFunctions ctx" by (cases r') auto
  from res fr show "r \<noteq> Panic nilSiteContext" by (cases r') auto
  from res show "r = Ok next \<Longrightarrow> next = Some PackageStep" by (cases r') auto
qed

lemma embedScripts_panic:
  "fst (embedScripts env archive names w) \<noteq> Panic ''nil pointer dereference: ctx.s3SiteContext''"
  by (induction names arbitrary: w)
     (simp_all add: Let_def split: option.splits)

lemma embedNodeModules_panic:
  "fst (embedNodeModules env archive bytes files w) \<noteq> Panic ''nil pointer dereference: ctx.s3SiteContext''"
  by (induction files arbitrary: w)
     (simp_all add: Let_def split: option.splits sum.splits)

lemma packageArchiveContents_result:
  "fst (packageArchiveContents env ctx exe tmp w) \<noteq> Panic nilSiteContext \<and>
   (fst (packageArchiveContents env ctx exe tmp w) = Ok next \<longrightarrow> next = Some (UploadStep tmp))"
  using embedScripts_panic embedNodeModules_panic
  by (auto simp: packageArchiveContents_def Let_def split_beta nilSiteContext_def
      split: option.splits sum.splits result.splits)

lemma packageArchive_result:
  "fst (packageArchive env ctx exe tmp w) \<noteq> Panic nilSiteContext \<and>
   (fst (packageArchive env ctx exe tmp w) = Ok next \<longrightarrow> next = Some (UploadStep tmp))"
  using packageArchiveContents_result [of env ctx exe tmp]
  by (auto simp: packageArchive_def Let_def split_beta split: option.splits)

lemma packageBinary_result:
  "fst (packageBinary env ctx name exe w) \<noteq> Panic nilSiteContext \<and>
   (fst (packageBinary env ctx name exe w) = Ok next \<longrightarrow> (\<exists>tmp. next = Some (UploadStep tmp)))"
  using packageArchive_result [of env ctx exe]
  by (auto simp: packageBinary_def Let_def split_beta split: sum.splits)

lemma createPackageStep_result:
  "fst (createPackageStep env ctx w) \<noteq> Panic nilSiteContext \<and>
   (fst (createPackageStep env ctx w) = Ok next \<longrightarrow> (\<exists>tmp. next = Some (UploadStep tmp)))"
  using packageBinary_result [of env ctx]
  by (auto simp: createPackageStep_def Let_def split_beta split: option.splits)

lemma primaryUpload_frame:
  "noop (fst (primaryUpload env path ctx errs w)) = noop ctx \<and>
   s3SiteContext (fst (primaryUpload env path ctx errs w)) = s3SiteContext ctx \<and>
   templateWriter (fst (primaryUpload env path ctx errs w)) = templateWriter ctx \<and>
   (noop ctx \<longrightarrow> list_all builtInNoop (rollbackFunctions ctx) \<longrightarrow>
      list_all builtInNoop (rollbackFunctions (fst (primaryUpload env path ctx errs w))))"
  by (auto simp: primaryUpload_def Let_def split_beta registerRollback_def createS3RollbackFunc_def
      split: sum.splits)

lemma siteUpload_frame:
  "noop (fst (siteUpload env site ctx errs w)) = noop ctx \<and>
   (s3SiteContext ctx \<noteq> None \<longrightarrow> s3SiteContext (fst (siteUpload env site ctx errs w)) \<noteq> None) \<and>
   templateWriter (fst (siteUpload env site ctx errs w)) = templateWriter ctx \<and>
   (noop ctx \<longrightarrow> list_all builtInNoop (rollbackFunctions ctx) \<longrightarrow>
      list_all builtInNoop (rollbackFunctions (fst (siteUpload env site ctx errs w))))"
  by (auto simp: siteUpload_def Let_def split_beta registerRollback_def createS3RollbackFunc_def
      setSiteLambdaZipKey_def split: sum.splits option.splits)

lemma uploadUnits_frame:
  fixes env path site ctx w
  defines "both \<equiv>
     (if primaryUploadFirst env w then
        (case primaryUpload env path ctx [] w of
           (ctx1, errs1, w1) \<Rightarrow> siteUpload env site ctx1 errs1 w1)
      else
        (case siteUpload env site ctx [] w of
           (ctx1, errs1, w1) \<Rightarrow> primaryUpload env path ctx1 errs1 w1))"
  shows "noop (fst both) = noop ctx \<and>
   (s3SiteContext ctx \<noteq> None \<longrightarrow> s3SiteContext (fst both) \<noteq> None) \<and>
   templateWriter (fst both) = templateWriter ctx \<and>
   (noop ctx \<longrightarrow> list_all builtInNoop (rollbackFunctions ctx) \<longrightarrow>
      list_all builtInNoop (rollbackFunctions (fst both))) \<and>
   (noop ctx \<longrightarrow> quiet w0 w \<longrightarrow> quiet w0 (snd (snd both)))"
proof (cases "primaryUploadFirst env w")
  case True
  obtain c1 e1 w1 where p: "primaryUpload env path ctx [] w = (c1, e1, w1)" by (metis prod_cases3)
  from True p have both: "both = siteUpload env site c1 e1 w1" by (simp add: both_def)
  from primaryUpload_frame [of env path ctx "[]" w] p primaryUpload_noop_quiet [of ctx w0 w env path "[]"]
  have c1: "noop c1 = noop ctx" "s3SiteContext c1 = s3SiteContext ctx"
      "templateWriter c1 = templateWriter ctx"
      "noop ctx \<longrightarrow> list_all builtInNoop (rollbackFunctions ctx) \<longrightarrow>
         list_all builtInNoop (rollbackFunctions c1)"
      "noop ctx \<longrightarrow> quiet w0 w \<longrightarrow> quiet w0 w1"
    by simp_all
  from siteUpload_frame [of env site c1 e1 w1] siteUpload_noop_quiet [of c1 w0 w1 env site e1] c1
  show ?thesis unfolding both by auto
next
  case False
  obtain c1 e1 w1 where p: "siteUpload env site ctx [] w = (c1, e1, w1)" by (metis prod_cases3)
  from False p have both: "both = primaryUpload env path c1 e1 w1" by (simp add: both_def)
  from siteUpload_frame [of env site ctx "[]" w] p siteUpload_noop_quiet [of ctx w0 w env site "[]"]
  have c1: "noop c1 = noop ctx" "s3SiteContext ctx \<noteq> None \<longrightarrow> s3SiteContext c1 \<noteq> None"
      "templateWriter c1 = templateWriter ctx"
      "noop ctx \<longrightarrow> list_all builtInNoop (rollbackFunctions ctx) \<longrightarrow>
         list_all builtInNoop (rollbackFunctions c1)"
      "noop ctx \<longrightarrow> quiet w0 w \<longrightarrow> quiet w0 w1"
    by simp_all
  from primaryUpload_frame [of env path c1 e1 w1] primaryUpload_noop_quiet [of c1 w0 w1 env path e1] c1
  show ?thesis unfolding both by auto
qed

lemma createUploadStep_frame:
  assumes "s3SiteContext ctx \<noteq> None"
  shows "fst (createUploadStep env path ctx w) \<noteq> Panic p"
    and "fst (createUploadStep env path ctx w) = Ok next \<Longrightarrow> next = Some EnsureCloudFormationStack"
    and "noop (fst (snd (createUploadStep env path ctx w))) = noop ctx"
    and "s3SiteContext (fst (snd (createUploadStep env path ctx w))) \<noteq> None"
    and "templateWriter (fst (snd (createUploadStep env path ctx w))) = templateWriter ctx"
    and "noop ctx \<Longrightarrow> list_all builtInNoop (rollbackFunctions ctx) \<Longrightarrow>
         list_all builtInNoop (rollbackFunctions (fst (snd (createUploadStep env path ctx w))))"
    and "noop ctx \<Longrightarrow> quiet w0 w \<Longrightarrow> quiet w0 (snd (snd (createUploadStep env path ctx w)))"
proof -
  from assms obtain sc where sc: "s3SiteContext ctx = Some sc" by blast
  define units where "units =
     (case s3Site sc of
        None \<Rightarrow> primaryUpload env path ctx [] w
      | Some site \<Rightarrow>
          if primaryUploadFirst env w then
            (case primaryUpload env path ctx [] w of
               (ctx1, errs1, w1) \<Rightarrow> siteUpload env site ctx1 errs1 w1)
          else
            (case siteUpload env site ctx [] w of
               (ctx1, errs1, w1) \<Rightarrow> primaryUpload env path ctx1 errs1 w1))"
  obtain c2 e2 w2 where u: "units = (c2, e2, w2)" by (metis prod_cases3)
  have step: "createUploadStep env path ctx w =
     (if length e2 > 0 then
        (case aggregateUploadErrors ''Encountered multiple errors during upload:\<newline>'' e2 of
           Some errorText \<Rightarrow> (Err errorText, c2, w2)
         | None \<Rightarrow> (Ok (Some EnsureCloudFormationStack), c2, w2))
      else (Ok (Some EnsureCloudFormationStack), c2, w2))"
    by (simp add: createUploadStep_def sc u [unfolded units_def])
  have "noop (fst units) = noop ctx \<and>
     (s3SiteContext ctx \<noteq> None \<longrightarrow> s3SiteContext (fst units) \<noteq> None) \<and>
     templateWriter (fst units) = templateWriter ctx \<and>
     (noop ctx \<longrightarrow> list_all builtInNoop (rollbackFunctions ctx) \<longrightarrow>
        list_all builtInNoop (rollbackFunctions (fst units))) \<and>
     (noop ctx \<longrightarrow> quiet w0 w \<longrightarrow> quiet w0 (snd (snd units)))"
  proof (cases "s3Site sc")
    case None
    then have "units = primaryUpload env path ctx [] w" by (simp add: units_def)
    with primaryUpload_frame [of env path ctx "[]" w] primaryUpload_noop_quiet [of ctx w0 w env path "[]"]
    show ?thesis by auto
  next
    case (Some site)
    then show ?thesis
      unfolding units_def
      using uploadUnits_frame [where env = env and path = path and ctx = ctx and w = w
          and site = site and ?w0.0 = w0]
      by simp
  qed
  then have fr: "noop c2 = noop ctx" "s3SiteContext c2 \<noteq> None"
      "templateWriter c2 = templateWriter ctx"
      "noop ctx \<longrightarrow> list_all builtInNoop (rollbackFunctions ctx) \<longrightarrow>
         list_all builtInNoop (rollbackFunctions c2)"
      "noop ctx \<longrightarrow> quiet w0 w \<longrightarrow> quiet w0 w2"
    using assms by (simp_all add: u)
  show "fst (createUploadStep env path ctx w) \<noteq> Panic p"
    by (simp add: step split: option.splits)
  show "fst (createUploadStep env path ctx w) = Ok next \<Longrightarrow> next = Some EnsureCloudFormationStack"
    by (auto simp: step split: option.splits if_splits)
  have ctx': "fst (snd (createUploadStep env path ctx w)) = c2"
    and w': "snd (snd (createUploadStep env path ctx w)) = w2"
    by (simp_all add: step split: option.splits)
  from fr show "noop (fst (snd (createUploadStep env path ctx w))) = noop ctx"
    and "s3SiteContext (fst (snd (createUploadStep env path ctx w))) \<noteq> None"
    and "templateWriter (fst (snd (createUploadStep env path ctx w))) = templateWriter ctx"
    and "noop ctx \<Longrightarrow> list_all builtInNoop (rollbackFunctions ctx) \<Longrightarrow>
         list_all builtInNoop (rollbackFunctions (fst (snd (createUploadStep env path ctx w))))"
    and "noop ctx \<Longrightarrow> quiet w0 w \<Longrightarrow> quiet w0 (snd (snd (createUploadStep env path ctx w)))"
    by (simp_all add: ctx' w')
qed

lemma exportLambdas_frame:
  "noop (snd (exportLambdas env ls ctx)) = noop ctx \<and>
   s3SiteContext (snd (exportLambdas env ls ctx)) = s3SiteContext ctx \<and>
   templateWriter (snd (exportLambdas env ls ctx)) = templateWriter ctx \<and>
   rollbackFunctions (snd (exportLambdas env ls ctx)) = rollbackFunctions ctx"
  by (induction ls arbitrary: ctx) (simp_all split: sum.splits)

lemma exportAPIGateway_frame:
  "noop (snd (snd (exportAPIGateway env ctx))) = noop ctx \<and>
   s3SiteContext (snd (snd (exportAPIGateway env ctx))) = s3SiteContext ctx \<and>
   templateWriter (snd (snd (exportAPIGateway env ctx))) = templateWriter ctx \<and>
   rollbackFunctions (snd (snd (exportAPIGateway env ctx))) = rollbackFunctions ctx"
  by (simp add: exportAPIGateway_def split: option.splits sum.splits)

lemma exportSite_frame:
  "noop (exportSite env t sc ctx) = noop ctx \<and>
   s3SiteContext (exportSite env t sc ctx) = s3SiteContext ctx \<and>
   templateWriter (exportSite env t sc ctx) = templateWriter ctx \<and>
   rollbackFunctions (exportSite env t sc ctx) = rollbackFunctions ctx"
  by (simp add: exportSite_def split: option.splits)

lemma saveOutputs_frame:
  "noop (saveOutputs env ctx) = noop ctx \<and>
   s3SiteContext (saveOutputs env ctx) = s3SiteContext ctx \<and>
   templateWriter (saveOutputs env ctx) = templateWriter ctx \<and>
   rollbackFunctions (saveOutputs env ctx) = rollbackFunctions ctx"
  by (simp add: saveOutputs_def)

lemma insertDependencyOutputs_quiet:
  "quiet w0 w \<Longrightarrow> quiet w0 (snd (insertDependencyOutputs env t keys res w))"
proof (induction keys arbitrary: res w)
  case Nil
  then show ?case by simp
next
  case (Cons k keys)
  show ?case
    by (auto simp: Let_def intro!: Cons.IH quiet_emit Cons.prems)
qed

lemma annotateLambdaResource_quiet:
  "quiet w0 w \<Longrightarrow> quiet w0 (snd (annotateLambdaResource env t res w))"
  by (auto simp: annotateLambdaResource_def split_beta intro!: insertDependencyOutputs_quiet)

lemma annotateResources_quiet:
  "quiet w0 w \<Longrightarrow> quiet w0 (snd (annotateResources env keys t w))"
proof (induction keys arbitrary: t w)
  case Nil
  then show ?case by simp
next
  case (Cons k keys)
  show ?case
    by (auto simp: split_beta intro!: Cons.IH annotateLambdaResource_quiet Cons.prems
        split: option.splits)
qed

lemma synthesizeTemplate_frame:
  "noop (fst (snd (synthesizeTemplate env ctx w))) = noop ctx"
  "s3SiteContext (fst (snd (synthesizeTemplate env ctx w))) = s3SiteContext ctx"
  "templateWriter (fst (snd (synthesizeTemplate env ctx w))) = templateWriter ctx"
  "rollbackFunctions (fst (snd (synthesizeTemplate env ctx w))) = rollbackFunctions ctx"
  "s3SiteContext ctx \<noteq> None \<Longrightarrow> fst (synthesizeTemplate env ctx w) \<noteq> Panic p"
  "quiet w0 w \<Longrightarrow> quiet w0 (snd (snd (synthesizeTemplate env ctx w)))"
  using exportLambdas_frame [of env "lambdaAWSInfos ctx" ctx]
    exportAPIGateway_frame [of env "snd (exportLambdas env (lambdaAWSInfos ctx) ctx)"]
  by (auto simp: synthesizeTemplate_def Let_def split_beta exportSite_frame saveOutputs_frame
      intro!: annotateResources_quiet split: option.splits)


lemma publishTemplate_result:
  "publishTemplate env ctx w = Some (r, ctx1, w1) \<Longrightarrow>
   r \<noteq> Panic p \<and> (r = Ok next \<longrightarrow> next = None) \<and> s3SiteContext ctx1 = s3SiteContext ctx"
  by (auto simp: publishTemplate_def Let_def registerRollback_def
      split: sum.splits option.splits if_splits prod.splits)




section \<open>The site wrapper along a run\<close>

lemma ensureCloudFormationStack_site:
  assumes "ensureCloudFormationStack env ctx w = Some (r, c1, w1)" and "s3SiteContext ctx \<noteq> None"
  shows "s3SiteContext c1 \<noteq> None" and "r \<noteq> Panic p" and "r = Ok next \<Longrightarrow> next = None"
proof -
  obtain rS cS wS where syn: "synthesizeTemplate env ctx w = (rS, cS, wS)" by (metis prod_cases3)
  from synthesizeTemplate_frame(2) [of env ctx w] syn
  have cS: "s3SiteContext cS = s3SiteContext ctx" by simp
  have rS: "rS \<noteq> Panic q" for q
    using synthesizeTemplate_frame(5) [OF assms(2), of env w q] syn by simp
  show "s3SiteContext c1 \<noteq> None" and "r \<noteq> Panic p" and "r = Ok next \<Longrightarrow> next = None"
  proof (atomize (full), cases rS)
    case (Ok u)
    with assms(1) syn have "publishTemplate env cS wS = Some (r, c1, w1)"
      by (simp add: ensureCloudFormationStack_def)
    from publishTemplate_result [OF this] cS assms(2)
    show "s3SiteContext c1 \<noteq> None \<and> r \<noteq> Panic p \<and> (r = Ok next \<longrightarrow> next = None)" by auto
  next
    case (Err e)
    with assms syn cS
    show "s3SiteContext c1 \<noteq> None \<and> r \<noteq> Panic p \<and> (r = Ok next \<longrightarrow> next = None)"
      by (auto simp: ensureCloudFormationStack_def)
  next
    case (Panic q)
    with rS [of q] show "s3SiteContext c1 \<noteq> None \<and> r \<noteq> Panic p \<and> (r = Ok next \<longrightarrow> next = None)"
      by simp
  qed
qed

lemma runStep_site:
  assumes "runStep env step ctx w = Some (r, c1, w1)" and "s3SiteContext ctx \<noteq> None"
  shows "s3SiteContext c1 \<noteq> None" and "r \<noteq> Panic nilSiteContext"
proof (atomize (full), cases step)
  case VerifyIAMRoles
  with assms(1) have "verifyIAMRoles env ctx w = (r, c1, w1)" by simp
  from verifyIAMRoles_frame(2,5) [OF this] assms(2)
  show "s3SiteContext c1 \<noteq> None \<and> r \<noteq> Panic nilSiteContext" by simp
next
  case PackageStep
  with assms(1) have run: "createPackageStep env ctx w = (r, c1, w1)" by simp
  from createPackageStep_context [of env ctx w] createPackageStep_result [of env ctx w] run assms(2)
  show "s3SiteContext c1 \<noteq> None \<and> r \<noteq> Panic nilSiteContext" by simp
next
  case (UploadStep path)
  with assms(1) have run: "createUploadStep env path ctx w = (r, c1, w1)" by simp
  from createUploadStep_frame(1,4) [OF assms(2), of env path w] run
  show "s3SiteContext c1 \<noteq> None \<and> r \<noteq> Panic nilSiteContext" by simp
next
  case EnsureCloudFormationStack
  with assms(1) have "ensureCloudFormationStack env ctx w = Some (r, c1, w1)" by simp
  from ensureCloudFormationStack_site(1,2) [OF this assms(2)]
  show "s3SiteContext c1 \<noteq> None \<and> r \<noteq> Panic nilSiteContext" by simp
qed

lemma advances_site:
  "(advances env)\<^sup>*\<^sup>* a b \<Longrightarrow> s3SiteContext (fst (snd a)) \<noteq> None \<Longrightarrow>
   s3SiteContext (fst (snd b)) \<noteq> None"
proof (induction rule: rtranclp_induct)
  case base
  then show ?case by simp
next
  case (step b c)
  from step.hyps(2) have "runStep env (fst b) (fst (snd b)) (snd (snd b)) =
      Some (Ok (Some (fst c)), fst (snd c), snd (snd c))"
    by (simp add: advances_def)
  from runStep_site(1) [OF this] step.IH step.prems show ?case by simp
qed

lemma workflowLoop_site:
  assumes "workflowLoop env step ctx w = Some y" and "s3SiteContext ctx \<noteq> None"
  shows "fst y \<noteq> Panic nilSiteContext"
  using assms
proof (induction rule: workflowLoop.raw_induct)
  case (1 loop env step ctx w y)
  note IH = "1.IH" and eq = "1.hyps" and whole = "1.prems"(1) and site0 = "1.prems"(2)
  show ?case
  proof (cases "runStep env step ctx w")
    case None
    with eq show ?thesis by simp
  next
    case (Some res)
    obtain r c1 w1 where res: "res = (r, c1, w1)" by (metis prod_cases3)
    note run = Some [unfolded res]
    note site = runStep_site [OF run site0]
    show ?thesis
    proof (cases r)
      case (Ok following)
      show ?thesis
      proof (cases following)
        case None
        with Ok run eq show ?thesis by auto
      next
        case (Some n)
        with Ok run eq have approx: "loop env n c1 w1 = Some y" by simp
        from Some Ok run have "workflowLoop env step ctx w = workflowLoop env n c1 w1"
          by (intro workflowLoop_next) simp
        with whole have "workflowLoop env n c1 w1 = Some y" by simp
        from IH [OF approx this site(1)] show ?thesis .
      qed
    next
      case (Err e)
      with run eq show ?thesis by auto
    next
      case (Panic p)
      with run eq site(2) show ?thesis by auto
    qed
  qed
qed (rule assms(1))

text \<open>
  C10. For every call of Provision, whatever the gateway and site descriptors are (nil
  included), the context literal holds a non-nil site wrapper whose inner field is the
  site argument; the wrapper is non-nil in every state the engine loop reaches from the
  first step; no step run in such a state panics on the wrapper (the reads in the upload
  step and in the template synthesis go through a non-nil pointer); and Provision never
  ends in the nil dereference of the wrapper.
\<close>

theorem site_wrapper_never_nil:
  "s3SiteContext (newWorkflowContext noopFlag name description lambdas gateway site bucket writer) =
     Some \<lparr>s3Site = site, s3SiteLambdaZipKey = []\<rparr> \<and>
   ((advances env)\<^sup>*\<^sup>*
       (VerifyIAMRoles,
        newWorkflowContext noopFlag name description lambdas gateway site bucket writer, w)
       (step, ctx, w0) \<longrightarrow>
      s3SiteContext ctx \<noteq> None \<and>
      (\<forall>r. runStep env step ctx w0 = Some r \<longrightarrow> fst r \<noteq> Panic nilSiteContext)) \<and>
   (\<forall>w1. Provision env noopFlag name description lambdas gateway site bucket writer w \<noteq>
           Some (Panic nilSiteContext, w1))"
proof -
  let ?c0 = "newWorkflowContext noopFlag name description lambdas gateway site bucket writer"
  have init: "s3SiteContext ?c0 = Some \<lparr>s3Site = site, s3SiteLambdaZipKey = []\<rparr>"
    by (simp add: newWorkflowContext_def)
  have reach: "s3SiteContext ctx \<noteq> None \<and>
      (\<forall>r. runStep env step ctx w0 = Some r \<longrightarrow> fst r \<noteq> Panic nilSiteContext)"
    if "(advances env)\<^sup>*\<^sup>* (VerifyIAMRoles, ?c0, w) (step, ctx, w0)"
  proof -
    from advances_site [OF that] init have ctx: "s3SiteContext ctx \<noteq> None" by simp
    moreover have "fst r \<noteq> Panic nilSiteContext" if "runStep env step ctx w0 = Some r" for r
      using runStep_site(2) [of env step ctx w0 "fst r" "fst (snd r)" "snd (snd r)"] that ctx
      by simp
    ultimately show ?thesis by blast
  qed
  have "Provision env noopFlag name description lambdas gateway site bucket writer w \<noteq>
          Some (Panic nilSiteContext, w1)" for w1
  proof (cases "workflowLoop env VerifyIAMRoles ?c0 w")
    case None
    then show ?thesis by (simp add: Provision_def)
  next
    case (Some y)
    from workflowLoop_site [OF Some] init have "fst y \<noteq> Panic nilSiteContext" by simp
    with Some show ?thesis by (auto simp: Provision_def split_beta)
  qed
  with init reach show ?thesis by blast
qed

theorem site_wrapper_never_nil_witness:
  "\<exists>ctx w0.
     (advances demoEnv)\<^sup>*\<^sup>*
       (VerifyIAMRoles,
        newWorkflowContext True ''demo'' ''a demo'' [demoLambda] None None ''bucket'' None, [])
       (UploadStep ''/work/demo001'', ctx, w0) \<and>
     s3SiteContext ctx = Some \<lparr>s3Site = None, s3SiteLambdaZipKey = []\<rparr> \<and>
     fst (createUploadStep demoEnv ''/work/demo001'' ctx w0) = Ok (Some EnsureCloudFormationStack)"
proof -
  let ?c0 = "newWorkflowContext True ''demo'' ''a demo'' [demoLambda] None None ''bucket'' None"
  define c1 where "c1 = fst (snd (verifyIAMRoles demoEnv ?c0 []))"
  define h1 where "h1 = snd (snd (verifyIAMRoles demoEnv ?c0 []))"
  define h2 where "h2 = snd (snd (createPackageStep demoEnv c1 h1))"
  have v1: "verifyIAMRoles demoEnv ?c0 [] = (Ok (Some PackageStep), c1, h1)"
    unfolding c1_def h1_def by (simp add: demo_defs)
  have "fst (createPackageStep demoEnv c1 h1) = Ok (Some (UploadStep ''/work/demo001''))"
    unfolding c1_def by (simp add: demo_defs)
  then have v2: "createPackageStep demoEnv c1 h1 = (Ok (Some (UploadStep ''/work/demo001'')), c1, h2)"
    unfolding h2_def using createPackageStep_context [of demoEnv c1 h1]
    by (metis prod.collapse)
  have a1: "advances demoEnv (VerifyIAMRoles, ?c0, []) (PackageStep, c1, h1)"
    using v1 by (simp add: advances_def)
  have a2: "advances demoEnv (PackageStep, c1, h1) (UploadStep ''/work/demo001'', c1, h2)"
    using v2 by (simp add: advances_def)
  have reach: "(advances demoEnv)\<^sup>*\<^sup>* (VerifyIAMRoles, ?c0, []) (UploadStep ''/work/demo001'', c1, h2)"
    using a1 a2 by (simp add: rtranclp.intros)
  from site_wrapper_never_nil [of True "''demo''" "''a demo''" "[demoLambda]" None None "''bucket''"
      None demoEnv "[]" "UploadStep ''/work/demo001''" c1 h2] reach
  have some: "s3SiteContext c1 \<noteq> None"
    and ok: "fst (createUploadStep demoEnv ''/work/demo001'' c1 h2) \<noteq> Panic nilSiteContext"
    by simp_all
  have wrapper: "s3SiteContext c1 = Some \<lparr>s3Site = None, s3SiteLambdaZipKey = []\<rparr>"
    unfolding c1_def by (simp add: demo_defs)
  have "fst (createUploadStep demoEnv ''/work/demo001'' c1 h2) = Ok (Some EnsureCloudFormationStack)"
    using ok unfolding c1_def by (simp add: demo_defs)
  with reach wrapper show ?thesis by blast
qed

section \<open>Runs in no-op mode\<close>














end
